theory Spec2Isabelle
  imports Complex_Main
begin

section \<open>The Python values the prompt enhancer computes with\<close>

text \<open>
  The development embeds \<^verbatim>\<open>src/utils/prompt_enhancer.py\<close> (class \<^verbatim>\<open>PromptEnhancer\<close>).
  Strings are lists of characters, integers are unbounded. A Python float is modelled by
  the rational number it denotes (every finite double is one): a byte count below
  \<open>2 ^ 53\<close> divided by a power of two is exact in binary64, so the quotients of the
  probes are the rationals written here. The sign of zero and the decimal text of a float
  are not part of that model; the text is read from the runtime (\<open>float_str\<close> below).
  An exception is a value: its class name and its message (\<^verbatim>\<open>str(e)\<close>). Only
  subclasses of \<^verbatim>\<open>Exception\<close> are modelled, so \<^verbatim>\<open>except:\<close> and
  \<^verbatim>\<open>except Exception\<close> catch the same values.
\<close>

datatype exn = Exc (exc_class: string) (exc_msg: string)

definition bind_exn :: "exn + 'a \<Rightarrow> ('a \<Rightarrow> exn + 'b) \<Rightarrow> exn + 'b" where
  "bind_exn m f = (case m of Inl e \<Rightarrow> Inl e | Inr x \<Rightarrow> f x)"

text \<open>\<^verbatim>\<open>try: x = m  except: x = d\<close>\<close>

definition or_default :: "exn + 'a \<Rightarrow> 'a \<Rightarrow> 'a" where
  "or_default m d = (case m of Inl e \<Rightarrow> d | Inr x \<Rightarrow> x)"

text \<open>A number: an integer, a finite double by its value, or an infinite double by its sign.\<close>

datatype pynum = PyInt int | PyFloat rat | PyInf bool

subsection \<open>Strings\<close>

text \<open>\<^verbatim>\<open>s.startswith(p)\<close>\<close>

fun startswith :: "string \<Rightarrow> string \<Rightarrow> bool" where
  "startswith s [] = True"
| "startswith [] (p # ps) = False"
| "startswith (c # cs) (p # ps) = (c = p \<and> startswith cs ps)"

text \<open>\<^verbatim>\<open>sub in s\<close> for two strings: \<open>sub\<close> occurs in \<open>s\<close> as a contiguous run.\<close>

fun str_contains :: "string \<Rightarrow> string \<Rightarrow> bool" where
  "str_contains sub [] = (sub = [])"
| "str_contains sub (c # cs) = (startswith (c # cs) sub \<or> str_contains sub cs)"

text \<open>\<^verbatim>\<open>sep.join(xs)\<close>\<close>

fun join :: "string \<Rightarrow> string list \<Rightarrow> string" where
  "join sep [] = []"
| "join sep [x] = x"
| "join sep (x # y # ys) = x @ sep @ join sep (y # ys)"

text \<open>\<^verbatim>\<open>str(n)\<close> for an integer.\<close>

function str_nat :: "nat \<Rightarrow> string" where
  "str_nat n =
     (if n < 10 then [''0123456789'' ! n]
      else str_nat (n div 10) @ [''0123456789'' ! (n mod 10)])"
  by pat_completeness auto
termination
  by (relation "measure (\<lambda>n. n)") auto

declare str_nat.simps [simp del]

definition str_int :: "int \<Rightarrow> string" where
  "str_int i = (if i < 0 then CHR ''-'' # str_nat (nat (- i)) else str_nat (nat i))"

text \<open>
  A character is a code point below 256. \<^verbatim>\<open>s.lower()\<close>: the letters \<open>A\<close> to \<open>Z\<close> and
  the capital letters of Latin-1 (192 to 222, without the sign 215) move up by 32.
  \<^verbatim>\<open>c.isspace()\<close>; \<^verbatim>\<open>s.strip()\<close>.
\<close>

definition lower_char :: "char \<Rightarrow> char" where
  "lower_char c =
     (let n = (of_char c :: nat)
      in if (65 \<le> n \<and> n \<le> 90) \<or> (192 \<le> n \<and> n \<le> 222 \<and> n \<noteq> 215)
         then char_of (n + 32) else c)"

definition lower :: "string \<Rightarrow> string" where
  "lower s = map lower_char s"

definition isspace :: "char \<Rightarrow> bool" where
  "isspace c =
     (let n = (of_char c :: nat)
      in (9 \<le> n \<and> n \<le> 13) \<or> (28 \<le> n \<and> n \<le> 32) \<or> n = 133 \<or> n = 160)"

definition strip :: "string \<Rightarrow> string" where
  "strip s = rev (dropWhile isspace (rev (dropWhile isspace s)))"

text \<open>\<^verbatim>\<open>s.split(sep)\<close> for a non-empty separator, and \<^verbatim>\<open>s.split()\<close>.\<close>

function split_acc :: "string \<Rightarrow> string \<Rightarrow> string \<Rightarrow> string list" where
  "split_acc sep acc [] = [rev acc]"
| "split_acc sep acc (c # cs) =
     (if sep \<noteq> [] \<and> startswith (c # cs) sep
      then rev acc # split_acc sep [] (drop (length sep) (c # cs))
      else split_acc sep (c # acc) cs)"
  by pat_completeness auto
termination
  by (relation "measure (\<lambda>(sep, acc, s). length s)") auto

definition split :: "string \<Rightarrow> string \<Rightarrow> string list" where
  "split s sep = split_acc sep [] s"

fun split_ws_acc :: "string \<Rightarrow> string \<Rightarrow> string list" where
  "split_ws_acc acc [] = (if acc = [] then [] else [rev acc])"
| "split_ws_acc acc (c # cs) =
     (if isspace c then (if acc = [] then [] else [rev acc]) @ split_ws_acc [] cs
      else split_ws_acc (c # acc) cs)"

definition split_ws :: "string \<Rightarrow> string list" where
  "split_ws s = split_ws_acc [] s"

subsection \<open>Rounding\<close>

text \<open>
  A double is modelled by its value, a rational. \<^verbatim>\<open>round(x, 2)\<close>: CPython rounds the
  exact value of the double to the nearest multiple of \<open>1/100\<close>, a tie going to the even
  one, and returns the double nearest to that multiple; the model keeps the multiple,
  which is the decimal that double prints as.
\<close>

definition round_half_even :: "rat \<Rightarrow> int" where
  "round_half_even x =
     (let f = \<lfloor>x\<rfloor>; d = x - of_int f
      in if d < 1 / 2 then f else if 1 / 2 < d then f + 1
         else if even f then f else f + 1)"

definition round2 :: "rat \<Rightarrow> rat" where
  "round2 x = of_int (round_half_even (x * 100)) / 100"


subsection \<open>True division\<close>

text \<open>\<^verbatim>\<open>n.bit_length()\<close>: the number of binary digits of \<open>n\<close>.\<close>

fun bit_length :: "nat \<Rightarrow> nat" where
  "bit_length n = (if n = 0 then 0 else Suc (bit_length (n div 2)))"

declare bit_length.simps [simp del]

text \<open>
  \<^verbatim>\<open>a / b\<close> on two integers is the double nearest to the quotient, a tie going to the
  even mantissa: with \<open>k\<close> the exponent of the leading bit of the quotient, a multiple
  of \<open>2 powi (k - 52)\<close>, and of \<open>2 powi (- 1074)\<close> for the subnormal ones. A quotient that
  rounds to \<open>2 ^ 1024\<close> or more is an \<^verbatim>\<open>OverflowError\<close>.
\<close>

definition truediv :: "int \<Rightarrow> int \<Rightarrow> exn + rat" where
  "truediv a b =
     (if b = 0 then Inl (Exc ''ZeroDivisionError'' ''division by zero'')
      else if a = 0 then Inr 0
      else
        let x = \<bar>of_int a / of_int b\<bar>;
            d = int (bit_length (nat \<bar>a\<bar>)) - int (bit_length (nat \<bar>b\<bar>));
            k = (if 2 powi d \<le> x then d else d - 1);
            e = max (k - 52) (- 1074);
            y = of_int (round_half_even (x / 2 powi e)) * 2 powi e
        in if 2 ^ 1024 \<le> y
           then Inl (Exc ''OverflowError'' ''integer division result too large for a float'')
           else Inr (if (a < 0) = (b < 0) then y else - y))"

text \<open>The double nearest to a rational; \<open>None\<close> beyond the largest double.\<close>

definition binary64 :: "rat \<Rightarrow> rat option" where
  "binary64 x =
     (case quotient_of x of
        (p, q) \<Rightarrow> (case truediv p q of Inr y \<Rightarrow> Some y | Inl e \<Rightarrow> None))"

text \<open>
  \<^verbatim>\<open>round(x * 1000, 2)\<close> on a double \<open>x\<close>: the product is the nearest double, and an
  infinite one where it overflows, which \<^verbatim>\<open>round\<close> returns as it is.
\<close>

definition round2_times_1000 :: "rat \<Rightarrow> pynum" where
  "round2_times_1000 x =
     (case binary64 (x * 1000) of
        Some ms \<Rightarrow> PyFloat (round2 ms)
      | None \<Rightarrow> PyInf (0 < x))"

section \<open>Selection\<close>

text \<open>
  The argument \<^verbatim>\<open>enhancements\<close> is a string or a list of strings.
\<close>

datatype selection = StrSel string | ListSel "string list"

definition all_enhancements :: "string list" where
  "all_enhancements =
     [''time'', ''system'', ''network'', ''locale'', ''timezone'',
      ''performance'', ''hardware'', ''users'', ''network_traffic'',
      ''ports'', ''processes'', ''filesystem'', ''services'']"

text \<open>\<^verbatim>\<open>"all" in enhancements\<close>: a substring test on a string, membership on a list.\<close>

fun all_in :: "selection \<Rightarrow> bool" where
  "all_in (StrSel s) = str_contains ''all'' s"
| "all_in (ListSel xs) = (''all'' \<in> set xs)"

text \<open>\<^verbatim>\<open>for enhancement in ...\<close>: a string is iterated character by character.\<close>

fun iterate :: "selection \<Rightarrow> string list" where
  "iterate (StrSel s) = map (\<lambda>c. [c]) s"
| "iterate (ListSel xs) = xs"

definition enhancements_to_apply :: "selection \<Rightarrow> string list" where
  "enhancements_to_apply enhancements =
     (if enhancements = StrSel ''all'' \<or> all_in enhancements then all_enhancements
      else iterate enhancements)"

section \<open>The host as the probes read it\<close>

text \<open>
  Each call of the code into the operating system, \<^verbatim>\<open>psutil\<close>, \<^verbatim>\<open>platform\<close>,
  \<^verbatim>\<open>subprocess\<close> or the clock is a reading of the host: a value, or the exception the
  call raises (\<open>Inl\<close>). The text a subprocess prints is the reading after
  \<^verbatim>\<open>.decode()\<close>.
\<close>

record clock_host =
  datetime_now :: "exn + unit"  \<comment> \<open>\<^verbatim>\<open>datetime.now()\<close> returns, or raises\<close>
  datetime_utcnow :: "exn + unit"  \<comment> \<open>\<^verbatim>\<open>datetime.utcnow()\<close> returns, or raises\<close>
  time_tzname0 :: string
  strftime_weekday :: "exn + string"  \<comment> \<open>\<^verbatim>\<open>now_local.strftime('%A')\<close>\<close>
  strftime_date :: "exn + string"  \<comment> \<open>\<^verbatim>\<open>now_local.strftime('%d %B %Y')\<close>\<close>
  strftime_time :: "exn + string"  \<comment> \<open>\<^verbatim>\<open>now_local.strftime('%H:%M:%S')\<close>\<close>
  strftime_utc :: "exn + string"  \<comment> \<open>\<^verbatim>\<open>now_utc.strftime('%Y-%m-%d %H:%M:%S UTC')\<close>\<close>
  time_time :: "exn + int"  \<comment> \<open>\<^verbatim>\<open>int(time.time())\<close>\<close>

record system_host =
  platform_release :: string
  psutil_cpu_percent :: "exn + rat"
  psutil_cpu_count_logical :: "exn + nat option"
  psutil_cpu_count_physical :: "exn + nat option"
  cpuinfo_model_name :: "exn + string"
    \<comment> \<open>\<^verbatim>\<open>cat /proc/cpuinfo | grep 'model name' | uniq\<close>\<close>
  psutil_virtual_memory :: "exn + rat \<times> nat"  \<comment> \<open>percent, total\<close>
  psutil_disk_usage_root :: "exn + nat \<times> rat"  \<comment> \<open>total, percent\<close>
  boot_datetime :: "exn + int"
    \<comment> \<open>\<^verbatim>\<open>datetime.fromtimestamp(psutil.boot_time())\<close>, in microseconds\<close>
  now_datetime :: "exn + int"  \<comment> \<open>\<^verbatim>\<open>datetime.now()\<close>, in microseconds\<close>

record network_host =
  socket_gethostname :: "exn + string"
  socket_socket :: "exn + unit"
  socket_getsockname :: "exn + string"
    \<comment> \<open>\<^verbatim>\<open>s.connect(('10.255.255.255', 1)); s.getsockname()[0]\<close>\<close>
  uuid_getnode :: nat
  psutil_net_if_addrs :: "exn + string list"  \<comment> \<open>the keys, in the dictionary's order\<close>
  requests_get_seconds :: "exn + rat"
    \<comment> \<open>the request to google.com: \<^verbatim>\<open>time.time() - start\<close> after it, or the exception\<close>

record locale_host =
  locale_getlocale :: "exn + string option \<times> string option"
  locale_formats :: "exn + string \<times> string \<times> string"
    \<comment> \<open>after \<^verbatim>\<open>setlocale(LC_ALL, '')\<close>: currency symbol, \<^verbatim>\<open>strftime('%X')\<close>, \<^verbatim>\<open>strftime('%x')\<close>\<close>

record timezone_host =
  tz_tzname0 :: string
  time_timezone :: int
  time_altzone :: int
  time_daylight :: int
  localtime_tm_isdst :: "exn + int"
  pytz_all_timezones :: "exn + string list"

record net_io =
  bytes_sent :: nat
  bytes_recv :: nat
  packets_sent :: nat
  packets_recv :: nat

record performance_host =
  os_getloadavg :: "(exn + rat \<times> rat \<times> rat) option"
    \<comment> \<open>\<open>None\<close>: \<^verbatim>\<open>os\<close> has no \<^verbatim>\<open>getloadavg\<close>\<close>
  psutil_pids :: "exn + nat list"
  perf_net_io_counters :: "exn + net_io option"
  psutil_swap_percent :: "exn + rat"
  perf_boot_time :: "exn + string"
    \<comment> \<open>the boot time, as its \<^verbatim>\<open>strftime("%Y-%m-%d %H:%M:%S")\<close>\<close>

record hardware_host =
  platform_machine :: string
  wmi_bios_versions :: "exn + string list"
    \<comment> \<open>\<^verbatim>\<open>import wmi\<close> and the \<^verbatim>\<open>Version\<close> of each \<^verbatim>\<open>Win32_BIOS()\<close>\<close>
  sys_firmware_efi_exists :: "exn + bool"

record users_host =
  psutil_users :: "exn + string list"  \<comment> \<open>the \<^verbatim>\<open>name\<close> of each session\<close>
  who_output :: "exn + string"
  pwd_getpwall :: "exn + string list"  \<comment> \<open>\<^verbatim>\<open>p[0]\<close> of each entry\<close>
  net_user_output :: "exn + string"

record traffic_host =
  net_io_counters_1 :: "exn + net_io option"
  net_io_counters_2 :: "exn + net_io option"
  net_io_counters_pernic :: "exn + (string \<times> net_io) list"

record conn =
  conn_status :: string
  conn_laddr_port :: "nat option"  \<comment> \<open>\<open>None\<close>: \<^verbatim>\<open>laddr\<close> is the empty tuple\<close>
  conn_pid :: "nat option"

record ports_host =
  psutil_net_connections :: "exn + conn list"
  psutil_process_name :: "nat \<Rightarrow> exn + string"  \<comment> \<open>\<^verbatim>\<open>psutil.Process(pid).name()\<close>\<close>
  netstat_output :: "exn + string"

record pinfo =
  pinfo_name :: "string option"
  pinfo_status :: "string option"
  pinfo_cpu_percent :: "rat option"
  pinfo_memory_percent :: "rat option"

record processes_host =
  psutil_process_iter :: "exn + (exn + pinfo) list"
    \<comment> \<open>each process: its \<^verbatim>\<open>info\<close>, or the exception reading it raises\<close>

record partition =
  part_device :: string
  part_mountpoint :: string
  part_fstype :: string
  part_disk_usage :: "exn + nat \<times> nat \<times> rat"  \<comment> \<open>total, used, percent\<close>

record filesystem_host =
  psutil_disk_partitions :: "exn + partition list"
  psutil_disk_io_counters :: "exn + (nat \<times> nat) option"  \<comment> \<open>read count, write count\<close>

record services_host =
  systemctl_output :: "exn + string"
  service_status_all_output :: "exn + string"
  net_start_output :: "exn + string"
  process_iter_names :: "exn + string option list"
    \<comment> \<open>\<^verbatim>\<open>proc.info['name']\<close> of each process\<close>

text \<open>
  The runtime: the decimal text of a float (\<^verbatim>\<open>str\<close>, the formats \<^verbatim>\<open>+g\<close> and
  \<^verbatim>\<open>.1f\<close>), the order in which a set of strings is iterated, which depends on
  the hash seed of the process, and the text of the \<^verbatim>\<open>TypeError\<close> that \<^verbatim>\<open>sorted\<close> raises
  on keys of which some are \<^verbatim>\<open>None\<close>: it names the two types of the first comparison
  the sort tries with \<^verbatim>\<open>None\<close>.
\<close>

record host =
  platform_system :: string
  platform_processor :: string
  float_str :: "rat \<Rightarrow> string"
  float_plus_g :: "rat \<Rightarrow> string"
  float_1f :: "rat \<Rightarrow> string"
  set_order :: "string list \<Rightarrow> string list"
  sorted_error :: "rat option list \<Rightarrow> string"
  host_clock :: clock_host
  host_system :: system_host
  host_network :: network_host
  host_locale :: locale_host
  host_timezone :: timezone_host
  host_performance :: performance_host
  host_hardware :: hardware_host
  host_users :: users_host
  host_traffic :: traffic_host
  host_ports :: ports_host
  host_processes :: processes_host
  host_filesystem :: filesystem_host
  host_services :: services_host

definition valid_set_order :: "(string list \<Rightarrow> string list) \<Rightarrow> bool" where
  "valid_set_order f = (\<forall>xs. distinct (f xs) \<and> set (f xs) = set xs)"

section \<open>The probes\<close>

text \<open>
  \<^verbatim>\<open>try: body  except Exception as e: self.logger.log_message(f"Error getting ...: {str(e)}"); return None\<close>.
  A probe returns the messages it logged and its dictionary, or \<open>None\<close>. The logger
  is the file-appending collaborator of \<^verbatim>\<open>utils/logger.py\<close>; its messages are collected
  in a list. The log files are taken to be writable: \<^verbatim>\<open>log_message\<close> opens them without
  a \<^verbatim>\<open>try\<close> of its own, and where it cannot, what it raises leaves the handler and the
  probe; that failure of the logger is not a reading of the host here.
\<close>

type_synonym 'a probed = "string list \<times> 'a option"

definition guarded :: "string \<Rightarrow> exn + 'a \<Rightarrow> 'a probed" where
  "guarded what body =
     (case body of
        Inr r \<Rightarrow> ([], Some r)
      | Inl e \<Rightarrow> ([''Error getting '' @ what @ '': '' @ exc_msg e], None))"

definition str_num :: "host \<Rightarrow> pynum \<Rightarrow> string" where
  "str_num h n =
     (case n of
        PyInt i \<Rightarrow> str_int i
      | PyFloat q \<Rightarrow> float_str h q
      | PyInf positive \<Rightarrow> if positive then ''inf'' else ''-inf'')"

definition str_bool :: "bool \<Rightarrow> string" where
  "str_bool b = (if b then ''True'' else ''False'')"

definition str_opt_nat :: "nat option \<Rightarrow> string" where
  "str_opt_nat n = (case n of None \<Rightarrow> ''None'' | Some k \<Rightarrow> str_nat k)"

subsection \<open>time\<close>

record time_info =
  time_weekday :: string
  time_date :: string
  time_time_str :: string
  time_full :: string
  time_utc :: string
  time_timestamp :: int

text \<open>\<^verbatim>\<open>get_current_time_info\<close> has no \<^verbatim>\<open>try\<close>: what the clock raises, it raises.\<close>

definition get_current_time_info :: "host \<Rightarrow> exn + time_info" where
  "get_current_time_info h =
     bind_exn (datetime_now (host_clock h)) (\<lambda>now_local.
     bind_exn (datetime_utcnow (host_clock h)) (\<lambda>now_utc.
     let local_tz = time_tzname0 (host_clock h) in
     bind_exn (strftime_weekday (host_clock h)) (\<lambda>weekday.
     bind_exn (strftime_date (host_clock h)) (\<lambda>date.
     bind_exn (strftime_time (host_clock h)) (\<lambda>time_str.
     bind_exn (strftime_utc (host_clock h)) (\<lambda>utc.
     bind_exn (time_time (host_clock h)) (\<lambda>timestamp.
     Inr \<lparr> time_weekday = weekday, time_date = date, time_time_str = time_str,
           time_full = weekday @ '', '' @ date @ '' '' @ time_str @ '' ('' @ local_tz @ '')'',
           time_utc = utc, time_timestamp = timestamp \<rparr>)))))))"

definition newline :: string where
  "newline = [CHR 0x0A]"

definition quoted :: "string \<Rightarrow> string" where
  "quoted s = [CHR 0x27] @ s @ [CHR 0x27]"

subsection \<open>system\<close>

record system_info =
  sys_os :: string
  sys_version :: string
  sys_cpu :: rat
  sys_cpu_cores :: "nat option"
  sys_physical_cores :: "nat option"
  sys_cpu_model :: string
  sys_memory :: rat
  sys_memory_gb :: rat
  sys_disk_total :: rat
  sys_disk_percent :: rat
  sys_uptime :: string

definition cpu_model_of :: "host \<Rightarrow> string" where
  "cpu_model_of h =
     or_default
       (if platform_system h = ''Windows'' then Inr (platform_processor h)
        else bind_exn (cpuinfo_model_name (host_system h)) (\<lambda>out.
               case split (strip out) '':'' of
                 a # b # rest \<Rightarrow> Inr (strip b)
               | _ \<Rightarrow> Inl (Exc ''IndexError'' ''list index out of range'')))
       ''Unknown CPU''"

definition get_system_info :: "host \<Rightarrow> system_info probed" where
  "get_system_info h =
     guarded ''system info''
      (let os_name = platform_system h;
           os_version = platform_release (host_system h)
       in
       bind_exn (psutil_cpu_percent (host_system h)) (\<lambda>cpu_usage.
       bind_exn (psutil_cpu_count_logical (host_system h)) (\<lambda>cpu_cores.
       bind_exn (psutil_cpu_count_physical (host_system h)) (\<lambda>cpu_physical.
       let cpu_model = cpu_model_of h in
       bind_exn (psutil_virtual_memory (host_system h)) (\<lambda>(memory_used_percent, memory_total).
       bind_exn (truediv (int memory_total) (1024 ^ 3)) (\<lambda>memory_gb.
       let memory_total_gb = round2 memory_gb in
       bind_exn (psutil_disk_usage_root (host_system h)) (\<lambda>(disk_total_bytes, disk_percent).
       bind_exn (truediv (int disk_total_bytes) (1024 ^ 3)) (\<lambda>disk_gb.
       let disk_total = round2 disk_gb in
       bind_exn (boot_datetime (host_system h)) (\<lambda>boot_time.
       bind_exn (now_datetime (host_system h)) (\<lambda>now.
       let uptime = now - boot_time;
           uptime_days = uptime div 86400000000;
           uptime_seconds = (uptime mod 86400000000) div 1000000;
           uptime_hours = uptime_seconds div 3600;
           uptime_minutes = (uptime_seconds div 60) mod 60
       in Inr \<lparr> sys_os = os_name, sys_version = os_version, sys_cpu = cpu_usage,
                sys_cpu_cores = cpu_cores, sys_physical_cores = cpu_physical,
                sys_cpu_model = cpu_model, sys_memory = memory_used_percent,
                sys_memory_gb = memory_total_gb, sys_disk_total = disk_total,
                sys_disk_percent = disk_percent,
                sys_uptime = str_int uptime_days @ '' days, '' @ str_int uptime_hours
                   @ '' hours, '' @ str_int uptime_minutes @ '' minutes'' \<rparr>))))))))))"

subsection \<open>network\<close>

record network_info =
  net_hostname :: string
  net_local_ip :: string
  net_mac_address :: string
  net_interfaces :: "string list"
  net_internet_available :: bool
  net_latency :: pynum

definition hex2 :: "nat \<Rightarrow> string" where
  "hex2 b = [''0123456789abcdef'' ! (b div 16), ''0123456789abcdef'' ! (b mod 16)]"

definition mac_address_of :: "nat \<Rightarrow> string" where
  "mac_address_of node =
     join '':'' (rev (map (\<lambda>ele. hex2 ((node div 2 ^ ele) mod 256)) [0, 8, 16, 24, 32, 40]))"

definition get_network_info :: "host \<Rightarrow> network_info probed" where
  "get_network_info h =
     guarded ''network info''
      (bind_exn (socket_gethostname (host_network h)) (\<lambda>hostname.
       bind_exn (socket_socket (host_network h)) (\<lambda>s.
       let local_ip = or_default (socket_getsockname (host_network h)) ''127.0.0.1'';
           mac = mac_address_of (uuid_getnode (host_network h))
       in
       bind_exn (psutil_net_if_addrs (host_network h)) (\<lambda>interfaces.
       let (internet_available, latency) =
             (case requests_get_seconds (host_network h) of
                Inr seconds \<Rightarrow> (True, round2_times_1000 seconds)
              | Inl e \<Rightarrow> (False, PyInt (- 1)))
       in Inr \<lparr> net_hostname = hostname, net_local_ip = local_ip, net_mac_address = mac,
                net_interfaces = interfaces, net_internet_available = internet_available,
                net_latency = latency \<rparr>))))"

subsection \<open>locale\<close>

record locale_info =
  loc_language :: string
  loc_encoding :: string
  loc_currency :: string
  loc_time_format :: string
  loc_date_format :: string

definition or_unknown :: "string option \<Rightarrow> string" where
  "or_unknown x = (case x of None \<Rightarrow> ''Unknown'' | Some s \<Rightarrow> if s \<noteq> [] then s else ''Unknown'')"

definition get_locale_info :: "host \<Rightarrow> locale_info probed" where
  "get_locale_info h =
     guarded ''locale info''
      (bind_exn (locale_getlocale (host_locale h)) (\<lambda>(language, encoding).
       let (currency_symbol, time_format, date_format) =
             or_default (locale_formats (host_locale h)) (''Unknown'', ''Unknown'', ''Unknown'')
       in Inr \<lparr> loc_language = or_unknown language, loc_encoding = or_unknown encoding,
                loc_currency = currency_symbol, loc_time_format = time_format,
                loc_date_format = date_format \<rparr>))"

subsection \<open>timezone\<close>

record timezone_info =
  tz_current :: string
  tz_utc_offset :: string
  tz_dst_active :: bool
  tz_examples :: "string list"

definition get_timezone_info :: "host \<Rightarrow> timezone_info probed" where
  "get_timezone_info h =
     guarded ''timezone info''
      (let local_zone = tz_tzname0 (host_timezone h) in
       bind_exn (truediv (time_timezone (host_timezone h)) (- 3600)) (\<lambda>hours.
       bind_exn
         (if time_daylight (host_timezone h) \<noteq> 0
          then bind_exn (localtime_tm_isdst (host_timezone h)) (\<lambda>tm_isdst.
                 if 0 < tm_isdst
                 then bind_exn (truediv (time_altzone (host_timezone h)) (- 3600)) (\<lambda>dst_hours.
                        Inr (round2 dst_hours))
                 else Inr (round2 hours))
          else Inr (round2 hours))
         (\<lambda>utc_offset.
       bind_exn (localtime_tm_isdst (host_timezone h)) (\<lambda>tm_isdst.
       let is_dst = (tm_isdst \<noteq> 0) in
       bind_exn (pytz_all_timezones (host_timezone h)) (\<lambda>all_timezones.
       Inr \<lparr> tz_current = local_zone,
             tz_utc_offset = float_plus_g h utc_offset @ '' hours'',
             tz_dst_active = is_dst, tz_examples = take 5 all_timezones \<rparr>)))))"

subsection \<open>performance\<close>

record perf_info =
  perf_load_1 :: pynum
  perf_load_5 :: pynum
  perf_load_15 :: pynum
  perf_process_count :: nat
  perf_network_sent :: rat
  perf_network_recv :: rat
  perf_swap_percent :: rat
  perf_boot :: string

text \<open>Reading an attribute of what \<^verbatim>\<open>psutil.net_io_counters()\<close> returned.\<close>

definition attr_of :: "net_io option \<Rightarrow> string \<Rightarrow> exn + net_io" where
  "attr_of x name =
     (case x of
        Some v \<Rightarrow> Inr v
      | None \<Rightarrow> Inl (Exc ''AttributeError''
                 (quoted ''NoneType'' @ '' object has no attribute '' @ quoted name)))"

definition get_performance_metrics :: "host \<Rightarrow> perf_info probed" where
  "get_performance_metrics h =
     guarded ''performance metrics''
      (bind_exn
         (case os_getloadavg (host_performance h) of
            Some r \<Rightarrow> bind_exn r (\<lambda>(a, b, c). Inr (PyFloat a, PyFloat b, PyFloat c))
          | None \<Rightarrow> Inr (PyInt (- 1), PyInt (- 1), PyInt (- 1)))
         (\<lambda>(load_1, load_5, load_15).
       bind_exn (psutil_pids (host_performance h)) (\<lambda>pids.
       let process_count = length pids in
       bind_exn (perf_net_io_counters (host_performance h)) (\<lambda>net_io.
       bind_exn (attr_of net_io ''bytes_sent'') (\<lambda>io.
       bind_exn (truediv (int (bytes_sent io)) (1024 ^ 2)) (\<lambda>sent_mb.
       let net_sent = round2 sent_mb in
       bind_exn (truediv (int (bytes_recv io)) (1024 ^ 2)) (\<lambda>recv_mb.
       let net_recv = round2 recv_mb in
       bind_exn (psutil_swap_percent (host_performance h)) (\<lambda>swap_percent.
       bind_exn (perf_boot_time (host_performance h)) (\<lambda>boot_time.
       Inr \<lparr> perf_load_1 = load_1, perf_load_5 = load_5, perf_load_15 = load_15,
             perf_process_count = process_count, perf_network_sent = net_sent,
             perf_network_recv = net_recv, perf_swap_percent = swap_percent,
             perf_boot = boot_time \<rparr>)))))))))"

subsection \<open>hardware\<close>

record hardware_info =
  hw_machine_type :: string
  hw_processor :: string
  hw_bios_version :: string
  hw_boot_mode :: string

definition get_hardware_info :: "host \<Rightarrow> hardware_info probed" where
  "get_hardware_info h =
     guarded ''hardware info''
      (let machine_type = platform_machine (host_hardware h);
           processor = platform_processor h;
           bios_version =
             (if platform_system h = ''Windows''
              then (case wmi_bios_versions (host_hardware h) of
                      Inr versions \<Rightarrow> if versions = [] then ''Unknown'' else last versions
                    | Inl e \<Rightarrow> ''Unknown'')
              else ''Unknown'');
           boot_mode =
             (if platform_system h = ''Linux''
              then (case sys_firmware_efi_exists (host_hardware h) of
                      Inr b \<Rightarrow> if b then ''UEFI'' else ''Legacy BIOS''
                    | Inl e \<Rightarrow> ''Unknown'')
              else ''Unknown'')
       in Inr \<lparr> hw_machine_type = machine_type, hw_processor = processor,
                hw_bios_version = bios_version, hw_boot_mode = boot_mode \<rparr>)"

subsection \<open>users\<close>

record users_info =
  usr_logged_users :: "string list"
  usr_logged_users_count :: nat
  usr_system_users :: "string list"
  usr_system_users_count :: nat
  usr_sessions_count :: nat

text \<open>The loop over the lines of \<^verbatim>\<open>who\<close>; an exception leaves the loop with what it had.\<close>

fun who_lines :: "string list \<Rightarrow> string list \<times> nat \<Rightarrow> string list \<times> nat" where
  "who_lines [] st = st"
| "who_lines (line # ls) (logged_users, sessions_count) =
     (if strip line \<noteq> [] then
        (case split_ws line of
           username # rest \<Rightarrow>
             who_lines ls
               (if username \<in> set logged_users then logged_users
                else logged_users @ [username], sessions_count + 1)
         | [] \<Rightarrow> (logged_users, sessions_count))
      else who_lines ls (logged_users, sessions_count))"

fun net_user_lines :: "string list \<Rightarrow> string list \<Rightarrow> string list" where
  "net_user_lines [] system_users = system_users"
| "net_user_lines (l # ls) system_users =
     (let line = strip l in
      if line \<noteq> [] \<and> \<not> startswith line ''-'' \<and> \<not> startswith line ''User accounts''
         \<and> \<not> startswith line ''The command''
      then net_user_lines ls (system_users @ split_ws line)
      else net_user_lines ls system_users)"

definition get_users_info :: "host \<Rightarrow> users_info probed" where
  "get_users_info h =
     guarded ''users info''
      (let (logged_users, sessions_count) =
             (case psutil_users (host_users h) of
                Inr names \<Rightarrow> (names, length names)
              | Inl e \<Rightarrow>
                  (case who_output (host_users h) of
                     Inr output \<Rightarrow> who_lines (split output newline) ([], 0)
                   | Inl e' \<Rightarrow> ([], 0)));
           system_users =
             (if platform_system h \<noteq> ''Windows''
              then or_default (pwd_getpwall (host_users h)) []
              else (case net_user_output (host_users h) of
                      Inr output \<Rightarrow> net_user_lines (split output newline) []
                    | Inl e \<Rightarrow> []))
       in Inr \<lparr> usr_logged_users = logged_users,
                usr_logged_users_count = length logged_users,
                usr_system_users = system_users,
                usr_system_users_count = length system_users,
                usr_sessions_count = sessions_count \<rparr>)"

subsection \<open>network_traffic\<close>

record iface_stats =
  if_sent_mb :: rat
  if_received_mb :: rat
  if_packets_sent :: nat
  if_packets_recv :: nat

record traffic_info =
  tr_download_speed :: rat
  tr_upload_speed :: rat
  tr_total_sent :: rat
  tr_total_received :: rat
  tr_packets_sent :: nat
  tr_packets_recv :: nat
  tr_interfaces :: "(string \<times> iface_stats) list"

text \<open>
  The loop over the items of \<^verbatim>\<open>psutil.net_io_counters(pernic=True)\<close>, a dictionary (no
  interface twice); an exception leaves the loop with the entries it had.
\<close>

fun pernic_stats ::
  "(string \<times> net_io) list \<Rightarrow> (string \<times> iface_stats) list \<Rightarrow> (string \<times> iface_stats) list" where
  "pernic_stats [] interfaces_stats = interfaces_stats"
| "pernic_stats ((iface, stats) # items) interfaces_stats =
     (case truediv (int (bytes_sent stats)) (1024 * 1024) of
        Inl e \<Rightarrow> interfaces_stats
      | Inr sent_mb \<Rightarrow>
          (case truediv (int (bytes_recv stats)) (1024 * 1024) of
             Inl e \<Rightarrow> interfaces_stats
           | Inr recv_mb \<Rightarrow>
               pernic_stats items
                 (interfaces_stats @
                  [(iface, \<lparr> if_sent_mb = round2 sent_mb, if_received_mb = round2 recv_mb,
                             if_packets_sent = packets_sent stats,
                             if_packets_recv = packets_recv stats \<rparr>)])))"

definition get_network_traffic :: "host \<Rightarrow> traffic_info probed" where
  "get_network_traffic h =
     guarded ''network traffic''
      (bind_exn (net_io_counters_1 (host_traffic h)) (\<lambda>net_io1.
       bind_exn (net_io_counters_2 (host_traffic h)) (\<lambda>net_io2.
       bind_exn (attr_of net_io2 ''bytes_recv'') (\<lambda>io2.
       bind_exn (attr_of net_io1 ''bytes_recv'') (\<lambda>io1.
       bind_exn (truediv (int (bytes_recv io2) - int (bytes_recv io1)) 1024) (\<lambda>recv_kb.
       let download_speed = round2 recv_kb in
       bind_exn (truediv (int (bytes_sent io2) - int (bytes_sent io1)) 1024) (\<lambda>sent_kb.
       let upload_speed = round2 sent_kb in
       bind_exn (truediv (int (bytes_sent io2)) (1024 * 1024)) (\<lambda>sent_mb.
       let total_sent = round2 sent_mb in
       bind_exn (truediv (int (bytes_recv io2)) (1024 * 1024)) (\<lambda>recv_mb.
       let total_received = round2 recv_mb;
           interfaces_stats =
             (case net_io_counters_pernic (host_traffic h) of
                Inr items \<Rightarrow> pernic_stats items []
              | Inl e \<Rightarrow> [])
       in Inr \<lparr> tr_download_speed = download_speed, tr_upload_speed = upload_speed,
                tr_total_sent = total_sent, tr_total_received = total_received,
                tr_packets_sent = packets_sent io2, tr_packets_recv = packets_recv io2,
                tr_interfaces = interfaces_stats \<rparr>)))))))))"

subsection \<open>ports\<close>

record ports_info =
  po_listening_ports :: "int list"
  po_total_connections :: nat
  po_established :: nat
  po_top_processes :: "string list"

text \<open>\<^verbatim>\<open>process_connections[name] += 1\<close> on a \<^verbatim>\<open>defaultdict(int)\<close>, kept in insertion order.\<close>

fun bump :: "(string \<times> nat) list \<Rightarrow> string \<Rightarrow> (string \<times> nat) list" where
  "bump [] name = [(name, 1)]"
| "bump ((k, v) # kvs) name = (if k = name then (k, v + 1) # kvs else (k, v) # bump kvs name)"

text \<open>
  The loop over the connections. Its state: \<^verbatim>\<open>listening_ports\<close>, \<^verbatim>\<open>established\<close>,
  \<^verbatim>\<open>process_connections\<close>.
\<close>

fun scan_connections ::
  "(nat \<Rightarrow> exn + string) \<Rightarrow> conn list \<Rightarrow> int list \<times> nat \<times> (string \<times> nat) list
     \<Rightarrow> exn + int list \<times> nat \<times> (string \<times> nat) list" where
  "scan_connections pname [] st = Inr st"
| "scan_connections pname (c # cs) (listening_ports, established, process_connections) =
     (case (if conn_status c = ''LISTEN''
            then (case conn_laddr_port c of
                    None \<Rightarrow> Inl (Exc ''AttributeError''
                               (quoted ''tuple'' @ '' object has no attribute '' @ quoted ''port''))
                  | Some port \<Rightarrow>
                      Inr (if int port \<in> set listening_ports then listening_ports
                           else listening_ports @ [int port]))
            else Inr listening_ports) of
        Inl e \<Rightarrow> Inl e
      | Inr listening_ports' \<Rightarrow>
          scan_connections pname cs
            (listening_ports',
             if conn_status c = ''ESTABLISHED'' then established + 1 else established,
             case conn_pid c of
               None \<Rightarrow> process_connections
             | Some pid \<Rightarrow>
                 if pid = 0 then process_connections
                 else (case pname pid of
                         Inr name \<Rightarrow> bump process_connections name
                       | Inl e \<Rightarrow> process_connections)))"

text \<open>
  \<^verbatim>\<open>sorted(process_connections.items(), key=lambda x: x[1], reverse=True)[:5]\<close>: a stable
  sort by descending count, cut to five, each entry formatted as \<^verbatim>\<open>name (count)\<close>.
\<close>

definition top_processes_of :: "(string \<times> nat) list \<Rightarrow> string list" where
  "top_processes_of process_connections =
     map (\<lambda>(proc, count). proc @ '' ('' @ str_nat count @ '')'')
       (take 5 (sort_key (\<lambda>(proc, count). - int count) process_connections))"

text \<open>\<^verbatim>\<open>int(s)\<close> in base ten: \<open>None\<close> is the \<^verbatim>\<open>ValueError\<close>.\<close>

definition is_digit :: "char \<Rightarrow> bool" where
  "is_digit c = (48 \<le> (of_char c :: nat) \<and> (of_char c :: nat) \<le> 57)"

definition digit_val :: "char \<Rightarrow> nat" where
  "digit_val c = of_char c - 48"

fun parse_digits :: "nat \<Rightarrow> string \<Rightarrow> nat option" where
  "parse_digits acc [] = Some acc"
| "parse_digits acc [c] = (if is_digit c then Some (acc * 10 + digit_val c) else None)"
| "parse_digits acc (c # d # ds) =
     (if is_digit c then parse_digits (acc * 10 + digit_val c) (d # ds)
      else if c = CHR ''_'' \<and> is_digit d then parse_digits (acc * 10 + digit_val d) ds
      else None)"

definition py_int :: "string \<Rightarrow> int option" where
  "py_int s =
     (let t = strip s;
          negative = (case t of c # cs \<Rightarrow> c = CHR ''-'' | [] \<Rightarrow> False);
          u = (case t of c # cs \<Rightarrow> if c = CHR ''-'' \<or> c = CHR ''+'' then cs else t | [] \<Rightarrow> [])
      in case u of
           [] \<Rightarrow> None
         | d # ds \<Rightarrow>
             if is_digit d
             then map_option (\<lambda>n. if negative then - int n else int n)
                    (parse_digits (digit_val d) ds)
             else None)"

fun netstat_lines :: "string list \<Rightarrow> int list \<Rightarrow> int list" where
  "netstat_lines [] listening_ports = listening_ports"
| "netstat_lines (line # ls) listening_ports =
     (if str_contains ''LISTEN'' line then
        (let parts = split_ws line in
         if 4 \<le> length parts then
           (let addr = parts ! 3;
                port = last (split addr '':'')
            in case py_int port of
                 Some port_num \<Rightarrow>
                   netstat_lines ls
                     (if port_num \<in> set listening_ports then listening_ports
                      else listening_ports @ [port_num])
               | None \<Rightarrow> netstat_lines ls listening_ports)
         else netstat_lines ls listening_ports)
      else netstat_lines ls listening_ports)"

definition get_open_ports :: "host \<Rightarrow> ports_info probed" where
  "get_open_ports h =
     guarded ''open ports''
      (bind_exn (psutil_net_connections (host_ports h)) (\<lambda>connections.
       bind_exn (scan_connections (psutil_process_name (host_ports h)) connections ([], 0, []))
         (\<lambda>(listening_ports, established, process_connections).
       let top_processes = top_processes_of process_connections;
           listening_ports' =
             (if listening_ports = [] \<and> platform_system h = ''Linux''
              then (case netstat_output (host_ports h) of
                      Inr output \<Rightarrow> netstat_lines (split output newline) listening_ports
                    | Inl e \<Rightarrow> listening_ports)
              else listening_ports)
       in Inr \<lparr> po_listening_ports = sort listening_ports',
                po_total_connections = length connections,
                po_established = established,
                po_top_processes = top_processes \<rparr>)))"

subsection \<open>processes\<close>

record processes_info =
  pr_total :: nat
  pr_running :: nat
  pr_top_cpu :: "string list"
  pr_top_memory :: "string list"

definition str_opt :: "string option \<Rightarrow> string" where
  "str_opt x = (case x of None \<Rightarrow> ''None'' | Some s \<Rightarrow> s)"

text \<open>
  \<^verbatim>\<open>sorted(procs, key=..., reverse=True)[:5]\<close>, then the entries above zero. A key that
  is \<^verbatim>\<open>None\<close> cannot be compared: \<^verbatim>\<open>TypeError\<close>. With one process nothing is compared
  by the sort and the test \<^verbatim>\<open>> 0\<close> raises it; with more the sort raises it.
\<close>

definition top_by :: "host \<Rightarrow> (pinfo \<Rightarrow> rat option) \<Rightarrow> pinfo list \<Rightarrow> exn + string list" where
  "top_by h key procs =
     (case those (map (\<lambda>p. map_option (\<lambda>v. (p, v)) (key p)) procs) of
        None \<Rightarrow>
          Inl (Exc ''TypeError''
                (if length procs = 1
                 then quoted ''>'' @ '' not supported between instances of ''
                      @ quoted ''NoneType'' @ '' and '' @ quoted ''int''
                 else sorted_error h (map key procs)))
      | Some pvs \<Rightarrow>
          Inr (map (\<lambda>(p, v). str_opt (pinfo_name p) @ '' ('' @ float_1f h v @ ''%)'')
                (filter (\<lambda>(p, v). 0 < v) (take 5 (sort_key (\<lambda>(p, v). - v) pvs)))))"

definition get_process_info :: "host \<Rightarrow> processes_info probed" where
  "get_process_info h =
     guarded ''process info''
      (bind_exn (psutil_process_iter (host_processes h)) (\<lambda>iter.
       let procs = List.map_filter (\<lambda>r. case r of Inr pinfo \<Rightarrow> Some pinfo | Inl e \<Rightarrow> None) iter;
           running_count = length (filter (\<lambda>pinfo. pinfo_status pinfo = Some ''running'') procs)
       in
       bind_exn (top_by h pinfo_cpu_percent procs) (\<lambda>top_cpu.
       bind_exn (top_by h pinfo_memory_percent procs) (\<lambda>top_memory.
       Inr \<lparr> pr_total = length procs, pr_running = running_count,
             pr_top_cpu = top_cpu, pr_top_memory = top_memory \<rparr>))))"

subsection \<open>filesystem\<close>

record disk_info =
  dk_device :: string
  dk_mountpoint :: string
  dk_fstype :: string
  dk_total_gb :: rat
  dk_used_gb :: rat
  dk_percent :: rat

record filesystem_info =
  fs_disks :: "disk_info list"
  fs_io_read :: nat
  fs_io_write :: nat

text \<open>One turn of the loop over the partitions: \<open>None\<close> is the \<^verbatim>\<open>except: pass\<close>.\<close>

definition disk_of :: "partition \<Rightarrow> disk_info option" where
  "disk_of part =
     or_default
       (bind_exn (part_disk_usage part) (\<lambda>(usage_total, usage_used, usage_percent).
        bind_exn (truediv (int usage_total) (1024 ^ 3)) (\<lambda>total_gb.
        bind_exn (truediv (int usage_used) (1024 ^ 3)) (\<lambda>used_gb.
        Inr (Some \<lparr> dk_device = part_device part, dk_mountpoint = part_mountpoint part,
                     dk_fstype = part_fstype part,
                     dk_total_gb = round2 total_gb, dk_used_gb = round2 used_gb,
                     dk_percent = usage_percent \<rparr>)))))
       None"

definition get_filesystem_info :: "host \<Rightarrow> filesystem_info probed" where
  "get_filesystem_info h =
     guarded ''filesystem info''
      (bind_exn (psutil_disk_partitions (host_filesystem h)) (\<lambda>partitions.
       let disks = List.map_filter disk_of partitions in
       bind_exn (psutil_disk_io_counters (host_filesystem h)) (\<lambda>io_counters.
       let io_read = (case io_counters of Some (r, w) \<Rightarrow> r | None \<Rightarrow> 0);
           io_write = (case io_counters of Some (r, w) \<Rightarrow> w | None \<Rightarrow> 0)
       in Inr \<lparr> fs_disks = disks, fs_io_read = io_read, fs_io_write = io_write \<rparr>)))"

subsection \<open>services\<close>

record services_info =
  sv_running_count :: nat
  sv_services :: "string list"
  sv_critical :: "string list"

definition critical_service_names :: "string list" where
  "critical_service_names =
     [''sshd'', ''httpd'', ''apache2'', ''nginx'', ''mysql'', ''mariadb'',
      ''postgresql'', ''mongodb'', ''redis'', ''memcached'', ''docker'', ''containerd'',
      ''firewalld'', ''ufw'', ''ntpd'', ''systemd'', ''networkmanager'', ''cron'']"

definition windows_critical :: "string list" where
  "windows_critical =
     [''Windows Firewall'', ''Windows Defender'', ''Windows Update'',
      ''SQL Server'', ''IIS'', ''DHCP'', ''DNS'', ''Print Spooler'',
      ''Remote Desktop'', ''Windows Time'']"

text \<open>
  \<^verbatim>\<open>for critical in critical_service_names: if critical in name.lower(): ...; break\<close>:
  the name is appended once when some critical name occurs in it.
\<close>

definition is_critical :: "string \<Rightarrow> bool" where
  "is_critical name = list_ex (\<lambda>critical. str_contains critical (lower name)) critical_service_names"

definition is_windows_critical :: "string \<Rightarrow> bool" where
  "is_windows_critical line =
     list_ex (\<lambda>critical. str_contains (lower critical) (lower line)) windows_critical"

text \<open>The loop over the lines of \<^verbatim>\<open>systemctl list-units\<close>; its state: \<^verbatim>\<open>services\<close>, \<^verbatim>\<open>critical_services\<close>.\<close>

fun systemctl_lines :: "string list \<Rightarrow> string list \<times> string list \<Rightarrow> string list \<times> string list" where
  "systemctl_lines [] st = st"
| "systemctl_lines (line # ls) (services, critical_services) =
     (if str_contains ''.service'' line \<and> str_contains ''running'' line then
        (case split line ''.service'' of
           a # rest \<Rightarrow>
             (let service_name = strip a in
              systemctl_lines ls
                (services @ [service_name],
                 if is_critical service_name then critical_services @ [service_name]
                 else critical_services))
         | [] \<Rightarrow> (services, critical_services))
      else systemctl_lines ls (services, critical_services))"

text \<open>
  The loop over the lines of \<^verbatim>\<open>service --status-all\<close>. It runs in the handler of the
  \<^verbatim>\<open>systemctl\<close> call, where \<^verbatim>\<open>service_count\<close> was never assigned (\<open>None\<close>):
  \<^verbatim>\<open>service_count += 1\<close> raises \<^verbatim>\<open>UnboundLocalError\<close> at the first active service,
  and \<^verbatim>\<open>except: pass\<close> leaves the loop with the lists as they are.
\<close>

fun status_all_lines ::
  "string list \<Rightarrow> int option \<times> string list \<times> string list \<Rightarrow> string list \<times> string list" where
  "status_all_lines [] (service_count, services, critical_services) = (services, critical_services)"
| "status_all_lines (line # ls) (service_count, services, critical_services) =
     (if str_contains ''[ + ]'' line then
        (case service_count of
           None \<Rightarrow> (services, critical_services)
         | Some n \<Rightarrow>
             (case split line ''[ + ]'' of
                a # b # rest \<Rightarrow>
                  (let service_name = strip b in
                   status_all_lines ls
                     (Some (n + 1), services @ [service_name],
                      if is_critical service_name then critical_services @ [service_name]
                      else critical_services))
              | _ \<Rightarrow> (services, critical_services)))
      else status_all_lines ls (service_count, services, critical_services))"

fun net_start_lines :: "string list \<Rightarrow> string list \<times> string list \<Rightarrow> string list \<times> string list" where
  "net_start_lines [] st = st"
| "net_start_lines (l # ls) (services, critical_services) =
     (let line = strip l in
      if line \<noteq> [] \<and> \<not> startswith line ''The following'' \<and> \<not> startswith line ''The command''
      then net_start_lines ls
             (services @ [line],
              if is_windows_critical line then critical_services @ [line] else critical_services)
      else net_start_lines ls (services, critical_services))"

text \<open>The scan of the process list: a process without a name has \<^verbatim>\<open>None\<close> there.\<close>

fun scan_processes :: "string option list \<Rightarrow> string list \<Rightarrow> exn + string list" where
  "scan_processes [] critical_services = Inr critical_services"
| "scan_processes (name # ps) critical_services =
     (case name of
        None \<Rightarrow> Inl (Exc ''AttributeError''
                   (quoted ''NoneType'' @ '' object has no attribute '' @ quoted ''lower''))
      | Some n \<Rightarrow>
          scan_processes ps
            (if is_critical n then critical_services @ [n] else critical_services))"

definition discover_services :: "host \<Rightarrow> string list \<times> string list" where
  "discover_services h =
     (if platform_system h = ''Linux'' then
        (case systemctl_output (host_services h) of
           Inr output \<Rightarrow> systemctl_lines (split output newline) ([], [])
         | Inl e \<Rightarrow>
             (case service_status_all_output (host_services h) of
                Inr output \<Rightarrow> status_all_lines (split output newline) (None, [], [])
              | Inl e' \<Rightarrow> ([], [])))
      else if platform_system h = ''Windows'' then
        (case net_start_output (host_services h) of
           Inr output \<Rightarrow> net_start_lines (split output newline) ([], [])
         | Inl e \<Rightarrow> ([], []))
      else ([], []))"

definition get_services_info :: "host \<Rightarrow> services_info probed" where
  "get_services_info h =
     guarded ''services info''
      (let (services, critical_services) = discover_services h in
       bind_exn
         (if services = []
          then bind_exn (process_iter_names (host_services h))
                 (\<lambda>names. scan_processes names critical_services)
          else Inr critical_services)
         (\<lambda>critical_services'.
       Inr \<lparr> sv_running_count = length services, sv_services = services,
             sv_critical = set_order h critical_services' \<rparr>))"

section \<open>Rendering and assembly: \<^verbatim>\<open>enhance_prompt\<close>\<close>

text \<open>The lines each branch of the loop appends to \<^verbatim>\<open>info_sections\<close>.\<close>

definition render_time :: "time_info \<Rightarrow> string list" where
  "render_time time_info =
     [''Current time: '' @ time_full time_info,
      ''UTC time: '' @ time_utc time_info]"

definition render_system :: "host \<Rightarrow> system_info \<Rightarrow> string list" where
  "render_system h sys_info =
     [''System: '' @ sys_os sys_info @ '' '' @ sys_version sys_info,
      ''CPU: '' @ sys_cpu_model sys_info @ '' ('' @ str_opt_nat (sys_cpu_cores sys_info)
         @ '' cores, '' @ float_str h (sys_cpu sys_info) @ ''% usage)'',
      ''RAM: '' @ float_str h (sys_memory_gb sys_info) @ ''GB total, ''
         @ float_str h (sys_memory sys_info) @ ''% used'',
      ''Disk: '' @ float_str h (sys_disk_total sys_info) @ ''GB total, ''
         @ float_str h (sys_disk_percent sys_info) @ ''% used'',
      ''System uptime: '' @ sys_uptime sys_info]"

definition render_network :: "host \<Rightarrow> network_info \<Rightarrow> string list" where
  "render_network h network_info =
     [''Network: IP '' @ net_local_ip network_info @ '', hostname '' @ net_hostname network_info,
      ''Network interfaces: '' @ join '', '' (net_interfaces network_info),
      if net_internet_available network_info
      then ''Internet connection: Available (latency: ''
             @ str_num h (net_latency network_info) @ ''ms)''
      else ''Internet connection: Unavailable'']"

definition render_locale :: "locale_info \<Rightarrow> string list" where
  "render_locale locale_info =
     [''System locale: '' @ loc_language locale_info @ '', '' @ loc_encoding locale_info,
      ''Currency: '' @ loc_currency locale_info,
      ''Time format: '' @ loc_time_format locale_info,
      ''Date format: '' @ loc_date_format locale_info]"

definition render_timezone :: "timezone_info \<Rightarrow> string list" where
  "render_timezone timezone_info =
     [''Timezone information:'',
      ''  Current timezone: '' @ tz_current timezone_info,
      ''  UTC offset: '' @ tz_utc_offset timezone_info,
      ''  DST active: '' @ str_bool (tz_dst_active timezone_info)]"

definition render_performance :: "host \<Rightarrow> perf_info \<Rightarrow> string list" where
  "render_performance h perf_info =
     [''System performance:'',
      ''  CPU load: 1min: '' @ str_num h (perf_load_1 perf_info) @ '', 5min: ''
         @ str_num h (perf_load_5 perf_info) @ '', 15min: '' @ str_num h (perf_load_15 perf_info),
      ''  Process count: '' @ str_nat (perf_process_count perf_info),
      ''  Network usage: '' @ float_str h (perf_network_sent perf_info) @ ''MB sent, ''
         @ float_str h (perf_network_recv perf_info) @ ''MB received'',
      ''  Swap usage: '' @ float_str h (perf_swap_percent perf_info) @ ''%'']"

definition render_hardware :: "hardware_info \<Rightarrow> string list" where
  "render_hardware hw_info =
     [''Hardware information:'',
      ''  Machine type: '' @ hw_machine_type hw_info,
      ''  Processor: '' @ hw_processor hw_info,
      ''  BIOS version: '' @ hw_bios_version hw_info,
      ''  Boot mode: '' @ hw_boot_mode hw_info]"

definition render_users :: "users_info \<Rightarrow> string list" where
  "render_users users_info =
     (let users_list = join '', '' (take 5 (usr_logged_users users_info));
          users_list' =
            (if 5 < length (usr_logged_users users_info)
             then users_list @ '' and '' @ str_nat (length (usr_logged_users users_info) - 5) @ '' more''
             else users_list)
      in [''Users information:'',
          ''  Logged in users: '' @ str_nat (usr_logged_users_count users_info),
          ''  Current users: '' @ users_list',
          ''  System users: '' @ str_nat (usr_system_users_count users_info),
          ''  User sessions: '' @ str_nat (usr_sessions_count users_info)])"

definition render_network_traffic :: "host \<Rightarrow> traffic_info \<Rightarrow> string list" where
  "render_network_traffic h traffic_info =
     [''Network traffic:'',
      ''  Current download speed: '' @ float_str h (tr_download_speed traffic_info) @ '' KB/s'',
      ''  Current upload speed: '' @ float_str h (tr_upload_speed traffic_info) @ '' KB/s'',
      ''  Total downloaded: '' @ float_str h (tr_total_received traffic_info) @ '' MB'',
      ''  Total uploaded: '' @ float_str h (tr_total_sent traffic_info) @ '' MB'',
      ''  Packets received: '' @ str_nat (tr_packets_recv traffic_info),
      ''  Packets sent: '' @ str_nat (tr_packets_sent traffic_info)]"

definition render_ports :: "ports_info \<Rightarrow> string list" where
  "render_ports ports_info =
     [''Open ports and connections:'',
      ''  Total connections: '' @ str_nat (po_total_connections ports_info),
      ''  Listening ports: '' @ join '', '' (map str_int (take 10 (po_listening_ports ports_info)))]
     @ (if 10 < length (po_listening_ports ports_info)
        then [''    and '' @ str_nat (length (po_listening_ports ports_info) - 10) @ '' more...'']
        else [])
     @ [''  Established connections: '' @ str_nat (po_established ports_info),
        ''  Top processes using network: '' @ join '', '' (po_top_processes ports_info)]"

definition render_processes :: "processes_info \<Rightarrow> string list" where
  "render_processes processes_info =
     [''Process information:'',
      ''  Total processes: '' @ str_nat (pr_total processes_info),
      ''  Running processes: '' @ str_nat (pr_running processes_info),
      ''  Top CPU processes: '' @ join '', '' (pr_top_cpu processes_info),
      ''  Top memory processes: '' @ join '', '' (pr_top_memory processes_info)]"

definition render_disk :: "host \<Rightarrow> disk_info \<Rightarrow> string" where
  "render_disk h disk =
     ''  '' @ dk_device disk @ '': '' @ dk_mountpoint disk @ '', '' @ dk_fstype disk @ '', ''
       @ float_str h (dk_total_gb disk) @ ''GB total, '' @ float_str h (dk_percent disk) @ ''% used''"

definition render_filesystem :: "host \<Rightarrow> filesystem_info \<Rightarrow> string list" where
  "render_filesystem h fs_info =
     [''Filesystem information:'']
     @ map (render_disk h) (take 3 (fs_disks fs_info))
     @ (if 3 < length (fs_disks fs_info)
        then [''  ... and '' @ str_nat (length (fs_disks fs_info) - 3) @ '' more filesystems'']
        else [])
     @ [''  Total file operations: '' @ str_nat (fs_io_read fs_info) @ '' reads, ''
          @ str_nat (fs_io_write fs_info) @ '' writes'']"

definition render_services :: "services_info \<Rightarrow> string list" where
  "render_services services_info =
     [''System services:'',
      ''  Running services: '' @ str_nat (sv_running_count services_info),
      ''  Critical services: '' @ join '', '' (take 5 (sv_critical services_info))]
     @ (if 5 < length (sv_critical services_info)
        then [''    ... and '' @ str_nat (length (sv_critical services_info) - 5) @ '' more'']
        else [])"

text \<open>
  One turn of the loop: the messages logged and the lines appended, or the exception
  that leaves \<^verbatim>\<open>enhance_prompt\<close>. \<^verbatim>\<open>if info:\<close> holds for every dictionary a probe
  returns (none is empty), and fails for \<open>None\<close>.
\<close>

definition probe_lines :: "('a \<Rightarrow> string list) \<Rightarrow> 'a probed \<Rightarrow> string list \<times> (exn + string list)" where
  "probe_lines render r =
     (case snd r of
        Some info \<Rightarrow> (fst r, Inr (render info))
      | None \<Rightarrow> (fst r, Inr []))"

definition section_lines :: "host \<Rightarrow> string \<Rightarrow> string list \<times> (exn + string list)" where
  "section_lines h enhancement =
     (if enhancement = ''time'' then
        (case get_current_time_info h of
           Inl e \<Rightarrow> ([], Inl e)
         | Inr time_info \<Rightarrow> ([], Inr (render_time time_info)))
      else if enhancement = ''system'' then probe_lines (render_system h) (get_system_info h)
      else if enhancement = ''network'' then probe_lines (render_network h) (get_network_info h)
      else if enhancement = ''locale'' then probe_lines render_locale (get_locale_info h)
      else if enhancement = ''timezone'' then probe_lines render_timezone (get_timezone_info h)
      else if enhancement = ''performance'' then
        probe_lines (render_performance h) (get_performance_metrics h)
      else if enhancement = ''hardware'' then probe_lines render_hardware (get_hardware_info h)
      else if enhancement = ''users'' then probe_lines render_users (get_users_info h)
      else if enhancement = ''network_traffic'' then
        probe_lines (render_network_traffic h) (get_network_traffic h)
      else if enhancement = ''ports'' then probe_lines render_ports (get_open_ports h)
      else if enhancement = ''processes'' then probe_lines render_processes (get_process_info h)
      else if enhancement = ''filesystem'' then
        probe_lines (render_filesystem h) (get_filesystem_info h)
      else if enhancement = ''services'' then probe_lines render_services (get_services_info h)
      else ([], Inr []))"

text \<open>
  The loop. The host is read anew in every turn: \<open>w i\<close> is the host as turn \<open>i\<close> of
  the loop finds it. The result is what was logged, and the lines of \<^verbatim>\<open>info_sections\<close>
  or the exception that ended the loop.
\<close>

type_synonym world = "nat \<Rightarrow> host"

fun enhance_loop :: "world \<Rightarrow> nat \<Rightarrow> string list \<Rightarrow> string list \<times> (exn + string list)" where
  "enhance_loop w i [] = ([], Inr [])"
| "enhance_loop w i (enhancement # rest) =
     (case snd (section_lines (w i) enhancement) of
        Inl e \<Rightarrow> (fst (section_lines (w i) enhancement), Inl e)
      | Inr ls \<Rightarrow>
          (fst (section_lines (w i) enhancement) @ fst (enhance_loop w (Suc i) rest),
           case snd (enhance_loop w (Suc i) rest) of
             Inl e \<Rightarrow> Inl e
           | Inr ls' \<Rightarrow> Inr (ls @ ls')))"

definition header_line :: string where
  "header_line = ''Here is real-time information you can use if relevant:''"

definition trailer :: string where
  "trailer = ''The email is:''"

definition enhance_prompt :: "world \<Rightarrow> string \<Rightarrow> selection \<Rightarrow> string list \<times> (exn + string)" where
  "enhance_prompt w base_prompt enhancements =
     (let r = enhance_loop w 0 (enhancements_to_apply enhancements) in
      case snd r of
        Inl e \<Rightarrow> (fst r, Inl e)
      | Inr info_sections \<Rightarrow>
          if info_sections \<noteq> []
          then (fst r,
                Inr (base_prompt @ newline @ newline @ header_line @ newline
                     @ join newline info_sections @ newline @ newline @ trailer))
          else (fst r, Inr base_prompt))"

section \<open>Example hosts\<close>

text \<open>
  A host where every facility the probes call is absent: each call raises. Its
  \<^verbatim>\<open>datetime.now()\<close> raises the \<^verbatim>\<open>ValueError\<close> of a time beyond the year 9999, and its
  \<^verbatim>\<open>time.time()\<close> the \<^verbatim>\<open>OverflowError\<close> of a clock that does not fit 64 bits of
  nanoseconds.
\<close>

definition unavailable :: exn where
  "unavailable = Exc ''OSError'' ''unavailable''"

definition year_out_of_range :: exn where
  "year_out_of_range = Exc ''ValueError'' ''year 10000 is out of range''"

definition timestamp_too_large :: exn where
  "timestamp_too_large = Exc ''OverflowError'' ''timestamp too large to convert to C _PyTime_t''"

definition absent_host :: host where
  "absent_host =
     \<lparr> platform_system = ''Linux'', platform_processor = ''x86_64'',
       float_str = (\<lambda>q. ''<float>''), float_plus_g = (\<lambda>q. ''<float>''),
       float_1f = (\<lambda>q. ''<float>''), set_order = remdups,
       sorted_error = (\<lambda>keys. ''<TypeError>''),
       host_clock =
         \<lparr> datetime_now = Inl year_out_of_range, datetime_utcnow = Inl year_out_of_range,
           time_tzname0 = ''UTC'', strftime_weekday = Inl unavailable,
           strftime_date = Inl unavailable, strftime_time = Inl unavailable,
           strftime_utc = Inl unavailable, time_time = Inl timestamp_too_large \<rparr>,
       host_system =
         \<lparr> platform_release = ''6.1.0'', psutil_cpu_percent = Inl unavailable,
           psutil_cpu_count_logical = Inl unavailable, psutil_cpu_count_physical = Inl unavailable,
           cpuinfo_model_name = Inl unavailable, psutil_virtual_memory = Inl unavailable,
           psutil_disk_usage_root = Inl unavailable, boot_datetime = Inl unavailable,
           now_datetime = Inl unavailable \<rparr>,
       host_network =
         \<lparr> socket_gethostname = Inl unavailable, socket_socket = Inl unavailable,
           socket_getsockname = Inl unavailable, uuid_getnode = 0,
           psutil_net_if_addrs = Inl unavailable, requests_get_seconds = Inl unavailable \<rparr>,
       host_locale = \<lparr> locale_getlocale = Inl unavailable, locale_formats = Inl unavailable \<rparr>,
       host_timezone =
         \<lparr> tz_tzname0 = ''UTC'', time_timezone = 0, time_altzone = 0, time_daylight = 0,
           localtime_tm_isdst = Inl unavailable, pytz_all_timezones = Inl unavailable \<rparr>,
       host_performance =
         \<lparr> os_getloadavg = Some (Inl unavailable), psutil_pids = Inl unavailable,
           perf_net_io_counters = Inl unavailable, psutil_swap_percent = Inl unavailable,
           perf_boot_time = Inl unavailable \<rparr>,
       host_hardware =
         \<lparr> platform_machine = ''x86_64'', wmi_bios_versions = Inl unavailable,
           sys_firmware_efi_exists = Inl unavailable \<rparr>,
       host_users =
         \<lparr> psutil_users = Inl unavailable, who_output = Inl unavailable,
           pwd_getpwall = Inl unavailable, net_user_output = Inl unavailable \<rparr>,
       host_traffic =
         \<lparr> net_io_counters_1 = Inl unavailable, net_io_counters_2 = Inl unavailable,
           net_io_counters_pernic = Inl unavailable \<rparr>,
       host_ports =
         \<lparr> psutil_net_connections = Inl unavailable,
           psutil_process_name = (\<lambda>pid. Inl unavailable),
           netstat_output = Inl unavailable \<rparr>,
       host_processes = \<lparr> psutil_process_iter = Inl unavailable \<rparr>,
       host_filesystem =
         \<lparr> psutil_disk_partitions = Inl unavailable, psutil_disk_io_counters = Inl unavailable \<rparr>,
       host_services =
         \<lparr> systemctl_output = Inl unavailable, service_status_all_output = Inl unavailable,
           net_start_output = Inl unavailable, process_iter_names = Inl unavailable \<rparr> \<rparr>"

text \<open>The same host with a working clock, at noon and one second later.\<close>

definition noon_host :: host where
  "noon_host =
     absent_host \<lparr> host_clock :=
       \<lparr> datetime_now = Inr (), datetime_utcnow = Inr (), time_tzname0 = ''UTC'',
         strftime_weekday = Inr ''Monday'', strftime_date = Inr ''01 January 2024'',
         strftime_time = Inr ''12:00:00'', strftime_utc = Inr ''2024-01-01 12:00:00 UTC'',
         time_time = Inr 1704110400 \<rparr> \<rparr>"

definition later_host :: host where
  "later_host =
     absent_host \<lparr> host_clock :=
       \<lparr> datetime_now = Inr (), datetime_utcnow = Inr (), time_tzname0 = ''UTC'',
         strftime_weekday = Inr ''Monday'', strftime_date = Inr ''01 January 2024'',
         strftime_time = Inr ''12:00:01'', strftime_utc = Inr ''2024-01-01 12:00:01 UTC'',
         time_time = Inr 1704110401 \<rparr> \<rparr>"

text \<open>
  A host whose clock is set beyond the year 2262: \<^verbatim>\<open>datetime.now()\<close> returns, and
  \<^verbatim>\<open>time.time()\<close> raises \<^verbatim>\<open>OverflowError\<close>.
\<close>

definition far_future_host :: host where
  "far_future_host =
     absent_host \<lparr> host_clock :=
       \<lparr> datetime_now = Inr (), datetime_utcnow = Inr (), time_tzname0 = ''UTC'',
         strftime_weekday = Inr ''Friday'', strftime_date = Inr ''11 April 2262'',
         strftime_time = Inr ''23:47:16'', strftime_utc = Inr ''2262-04-11 23:47:16 UTC'',
         time_time = Inl timestamp_too_large \<rparr> \<rparr>"

definition noon_world :: world where
  "noon_world i = (if i = 0 then noon_host else later_host)"

text \<open>Two readings of the network counters, one second apart.\<close>

definition traffic_example_host :: host where
  "traffic_example_host =
     absent_host \<lparr> host_traffic :=
       \<lparr> net_io_counters_1 =
           Inr (Some \<lparr> bytes_sent = 1000000, bytes_recv = 2000000,
                        packets_sent = 700, packets_recv = 1400 \<rparr>),
         net_io_counters_2 =
           Inr (Some \<lparr> bytes_sent = 1512000, bytes_recv = 3048000,
                        packets_sent = 1050, packets_recv = 2100 \<rparr>),
         net_io_counters_pernic =
           Inr [(''eth0'', \<lparr> bytes_sent = 1512000, bytes_recv = 3048000,
                             packets_sent = 1050, packets_recv = 2100 \<rparr>)] \<rparr> \<rparr>"

text \<open>Twelve listening sockets; and six established connections of six processes.\<close>

definition listening :: "nat \<Rightarrow> conn" where
  "listening port = \<lparr> conn_status = ''LISTEN'', conn_laddr_port = Some port, conn_pid = None \<rparr>"

definition twelve_ports_host :: host where
  "twelve_ports_host =
     absent_host \<lparr> host_ports :=
       \<lparr> psutil_net_connections =
           Inr (map listening [8080, 22, 443, 80, 3306, 5432, 6379, 25, 53, 111, 631, 9000]),
         psutil_process_name = (\<lambda>pid. Inl unavailable),
         netstat_output = Inl unavailable \<rparr> \<rparr>"

definition established_by :: "nat \<Rightarrow> conn" where
  "established_by pid =
     \<lparr> conn_status = ''ESTABLISHED'', conn_laddr_port = Some 40000, conn_pid = Some pid \<rparr>"

definition six_process_host :: host where
  "six_process_host =
     absent_host \<lparr> host_ports :=
       \<lparr> psutil_net_connections = Inr (map established_by [1, 2, 3, 4, 5, 6]),
         psutil_process_name = (\<lambda>pid. Inr [''abcdef'' ! (pid - 1)]),
         netstat_output = Inl unavailable \<rparr> \<rparr>"

text \<open>
  A host without \<^verbatim>\<open>systemctl\<close> and \<^verbatim>\<open>service\<close>, running two nginx workers, an nginx
  master and a shell; and a host whose \<^verbatim>\<open>systemctl\<close> lists three units.
\<close>

definition nginx_process_host :: host where
  "nginx_process_host =
     absent_host \<lparr> host_services :=
       \<lparr> systemctl_output = Inl unavailable, service_status_all_output = Inl unavailable,
         net_start_output = Inl unavailable,
         process_iter_names =
           Inr [Some ''nginx-worker'', Some ''nginx-main'', Some ''nginx-worker'', Some ''bash''] \<rparr> \<rparr>"

definition systemd_host :: host where
  "systemd_host =
     absent_host \<lparr> host_services :=
       \<lparr> systemctl_output =
           Inr (''  nginx.service loaded active running web server'' @ newline
                @ ''  getty.service loaded active running terminal'' @ newline
                @ ''  cron.service loaded active running scheduler'' @ newline),
         service_status_all_output = Inl unavailable,
         net_start_output = Inl unavailable,
         process_iter_names = Inr [Some ''nginx-worker''] \<rparr> \<rparr>"

text \<open>The same host with 16 GiB and a bit of memory, half a terabyte of disk, one partition.\<close>

definition sized_host :: host where
  "sized_host =
     traffic_example_host \<lparr>
       host_system :=
         \<lparr> platform_release = ''6.1.0'', psutil_cpu_percent = Inr (25 / 2),
           psutil_cpu_count_logical = Inr (Some 8), psutil_cpu_count_physical = Inr (Some 4),
           cpuinfo_model_name = Inr ''model name : Example CPU'',
           psutil_virtual_memory = Inr (371 / 10, 17179869999),
           psutil_disk_usage_root = Inr (500107862016, 423 / 10),
           boot_datetime = Inr 1704000000000000, now_datetime = Inr 1704110400000000 \<rparr>,
       host_performance :=
         \<lparr> os_getloadavg = None, psutil_pids = Inr [1, 2, 3],
           perf_net_io_counters =
             Inr (Some \<lparr> bytes_sent = 1512000, bytes_recv = 3048000,
                          packets_sent = 1050, packets_recv = 2100 \<rparr>),
           psutil_swap_percent = Inr (3 / 10), perf_boot_time = Inr ''2023-12-31 05:20:00'' \<rparr>,
       host_filesystem :=
         \<lparr> psutil_disk_partitions =
             Inr [\<lparr> part_device = ''/dev/sda1'', part_mountpoint = ''/'', part_fstype = ''ext4'',
                    part_disk_usage = Inr (500107862016, 211545625633, 423 / 10) \<rparr>],
           psutil_disk_io_counters = Inr (Some (1000, 2000)) \<rparr> \<rparr>"

text \<open>The same host with eight pebibytes and a bit of memory: a byte count above \<open>2 ^ 53\<close>.\<close>

definition large_memory_host :: host where
  "large_memory_host =
     sized_host \<lparr> host_system := host_system sized_host
       \<lparr> psutil_virtual_memory := Inr (371 / 10, 9007199388958721) \<rparr> \<rparr>"

section \<open>Properties\<close>

subsection \<open>Strings\<close>

lemma startswith_iff: "startswith s p = (\<exists>r. s = p @ r)"
  by (induction s p rule: startswith.induct) auto

text \<open>\<open>str_contains\<close> is the substring relation.\<close>

lemma str_contains_iff: "str_contains sub s = (\<exists>p q. s = p @ sub @ q)"
proof (induction s)
  case Nil
  then show ?case by auto
next
  case (Cons c cs)
  show ?case
  proof
    assume "str_contains sub (c # cs)"
    then consider "startswith (c # cs) sub" | "str_contains sub cs" by auto
    then show "\<exists>p q. c # cs = p @ sub @ q"
    proof cases
      case 1
      then obtain r where "c # cs = sub @ r" by (auto simp: startswith_iff)
      then have "c # cs = [] @ sub @ r" by simp
      then show ?thesis by blast
    next
      case 2
      then obtain p q where "cs = p @ sub @ q" using Cons.IH by auto
      then have "c # cs = (c # p) @ sub @ q" by simp
      then show ?thesis by blast
    qed
  next
    assume "\<exists>p q. c # cs = p @ sub @ q"
    then obtain p q where pq: "c # cs = p @ sub @ q" by blast
    show "str_contains sub (c # cs)"
    proof (cases p)
      case Nil
      then have "startswith (c # cs) sub" using pq by (auto simp: startswith_iff)
      then show ?thesis by simp
    next
      case (Cons a p')
      then have "cs = p' @ sub @ q" using pq by simp
      then have "str_contains sub cs" using Cons.IH by blast
      then show ?thesis by simp
    qed
  qed
qed

subsection \<open>Selection\<close>

text \<open>
  C3. The selection \<^verbatim>\<open>"all"\<close>, and every list with \<^verbatim>\<open>"all"\<close> among its elements,
  resolves to the catalog of 13 kinds in its declared order, whatever else the list
  holds: \<^verbatim>\<open>["all", "time"]\<close> resolves as \<^verbatim>\<open>"all"\<close> does, and the catalog names no
  kind twice. A list without \<^verbatim>\<open>"all"\<close> is used as it is. (A string other than
  \<^verbatim>\<open>"all"\<close> is no selection of the specification; what the code does with one is C9.)
\<close>

theorem selection_resolution:
  "enhancements_to_apply (StrSel ''all'') = all_enhancements
   \<and> (''all'' \<in> set xs \<longrightarrow> enhancements_to_apply (ListSel xs) = all_enhancements)
   \<and> (''all'' \<notin> set xs \<longrightarrow> enhancements_to_apply (ListSel xs) = xs)
   \<and> enhancements_to_apply (ListSel [''all'', ''time'']) = enhancements_to_apply (StrSel ''all'')
   \<and> all_enhancements =
       [''time'', ''system'', ''network'', ''locale'', ''timezone'', ''performance'',
        ''hardware'', ''users'', ''network_traffic'', ''ports'', ''processes'',
        ''filesystem'', ''services'']
   \<and> length all_enhancements = 13 \<and> distinct all_enhancements"
  by (simp add: enhancements_to_apply_def all_enhancements_def)

theorem selection_resolution_witness:
  "''all'' \<in> set [''all'', ''time'']
   \<and> enhancements_to_apply (ListSel [''all'', ''time'']) = all_enhancements
   \<and> ''all'' \<notin> set [''system'', ''time'', ''system'']
   \<and> enhancements_to_apply (ListSel [''system'', ''time'', ''system''])
       = [''system'', ''time'', ''system'']"
  using selection_resolution [of "[''all'', ''time'']"]
    selection_resolution [of "[''system'', ''time'', ''system'']"]
  by simp

text \<open>
  C9. A string argument in which \<^verbatim>\<open>all\<close> occurs (\<^verbatim>\<open>"install"\<close>, \<^verbatim>\<open>"ball"\<close>) passes
  the test \<^verbatim>\<open>"all" in enhancements\<close>, which on a string looks for a substring: the
  catalog of all 13 kinds is applied, and the prompt is the one \<^verbatim>\<open>"all"\<close> gives.
\<close>

theorem substring_all_applies_catalog:
  "str_contains ''all'' s \<Longrightarrow>
     enhancements_to_apply (StrSel s) = all_enhancements
     \<and> length (enhancements_to_apply (StrSel s)) = 13
     \<and> enhance_prompt w base_prompt (StrSel s) = enhance_prompt w base_prompt (StrSel ''all'')"
  by (simp add: enhancements_to_apply_def enhance_prompt_def all_enhancements_def)

theorem substring_all_applies_catalog_witness:
  "str_contains ''all'' ''install'' \<and> ''install'' \<noteq> ''all''
   \<and> enhancements_to_apply (StrSel ''install'') = all_enhancements
   \<and> str_contains ''all'' ''ball'' \<and> ''ball'' \<noteq> ''all''
   \<and> enhancements_to_apply (StrSel ''ball'') = all_enhancements"
  using substring_all_applies_catalog [of "''install''"]
    substring_all_applies_catalog [of "''ball''"]
  by simp

subsection \<open>Errors and the loop\<close>

lemma probe_lines_snd:
  "snd (probe_lines render r) = Inr (case snd r of Some info \<Rightarrow> render info | None \<Rightarrow> [])"
  by (simp add: probe_lines_def split: option.split)

text \<open>
  A turn of the loop ends in an exception exactly when it is the turn of \<^verbatim>\<open>time\<close> and
  the clock raised: the twelve probes wrapped in \<^verbatim>\<open>try\<close> turn every failure into a
  logged message and \<open>None\<close>.
\<close>

lemma section_lines_raises_iff:
  "snd (section_lines h enhancement) = Inl e
     \<longleftrightarrow> enhancement = ''time'' \<and> get_current_time_info h = Inl e"
  by (simp add: section_lines_def probe_lines_snd split: sum.split)

lemma enhance_loop_without_time:
  "''time'' \<notin> set xs \<Longrightarrow> \<exists>ls. snd (enhance_loop w i xs) = Inr ls"
proof (induction xs arbitrary: i)
  case Nil
  then show ?case by simp
next
  case (Cons k ks)
  from Cons.prems have k: "k \<noteq> ''time''" and ks: "''time'' \<notin> set ks" by auto
  obtain ls where ls: "snd (section_lines (w i) k) = Inr ls"
    using k section_lines_raises_iff [of "w i" k] by (cases "snd (section_lines (w i) k)") auto
  obtain ls' where "snd (enhance_loop w (Suc i) ks) = Inr ls'"
    using Cons.IH [OF ks] by blast
  with ls show ?case by simp
qed

lemma unknown_section: "k \<notin> set all_enhancements \<Longrightarrow> section_lines h k = ([], Inr [])"
  by (simp add: section_lines_def all_enhancements_def)

lemma unknown_loop:
  "\<forall>k\<in>set xs. k \<notin> set all_enhancements \<Longrightarrow> enhance_loop w i xs = ([], Inr [])"
  by (induction xs arbitrary: i) (simp_all add: unknown_section)

text \<open>
  What the time probe raises, \<^verbatim>\<open>enhance_prompt\<close> raises: so on a host whose clock is set
  beyond the year 2262, where \<^verbatim>\<open>time.time()\<close> raises \<^verbatim>\<open>OverflowError\<close>.
\<close>

lemma time_probe_raises:
  assumes "get_current_time_info h = Inl e"
  shows "enhance_prompt (\<lambda>i. h) base_prompt (ListSel [''time'']) = ([], Inl e)"
  using assms
  by (simp add: enhance_prompt_def enhancements_to_apply_def section_lines_def)

lemma far_future_clock:
  "get_current_time_info far_future_host = Inl timestamp_too_large"
  "enhance_prompt (\<lambda>i. far_future_host) base_prompt (ListSel [''time''])
     = ([], Inl timestamp_too_large)"
proof -
  show t: "get_current_time_info far_future_host = Inl timestamp_too_large"
    by (simp add: get_current_time_info_def far_future_host_def bind_exn_def)
  show "enhance_prompt (\<lambda>i. far_future_host) base_prompt (ListSel [''time''])
     = ([], Inl timestamp_too_large)"
    by (rule time_probe_raises [OF t])
qed

text \<open>
  C1. The claim: no probe lets an exception reach its caller, and none reaches the caller
  of \<^verbatim>\<open>enhance_prompt\<close>. The code: \<^verbatim>\<open>get_current_time_info\<close> is the one probe without
  \<^verbatim>\<open>try\<close>. On a host where \<^verbatim>\<open>datetime.now()\<close> raises, here the \<^verbatim>\<open>ValueError\<close> of a year
  beyond 9999, the probe raises it, and so does \<^verbatim>\<open>enhance_prompt\<close> for the selection
  \<^verbatim>\<open>["time"]\<close>.
\<close>

theorem time_probe_error_reaches_caller:
  "get_current_time_info absent_host = Inl (Exc ''ValueError'' ''year 10000 is out of range'')
   \<and> enhance_prompt (\<lambda>i. absent_host) base_prompt (ListSel [''time''])
       = ([], Inl (Exc ''ValueError'' ''year 10000 is out of range''))"
  by (simp add: enhance_prompt_def enhancements_to_apply_def section_lines_def
      get_current_time_info_def absent_host_def bind_exn_def year_out_of_range_def)

subsection \<open>Assembly\<close>

text \<open>
  C2. When the loop has produced the lines \<open>info_sections\<close> and there is at least one,
  \<^verbatim>\<open>enhance_prompt\<close> returns the base prompt, two newlines, the header line, a newline,
  the lines joined by newlines, two newlines and the trailer. When there is none it
  returns the base prompt: so for the empty selection, and for a selection of unknown
  tokens only.
\<close>

theorem enhance_prompt_assembly:
  "(snd (enhance_loop w 0 (enhancements_to_apply enhancements)) = Inr info_sections
      \<and> info_sections \<noteq> [] \<longrightarrow>
      snd (enhance_prompt w base_prompt enhancements) =
        Inr (base_prompt @ newline @ newline
             @ ''Here is real-time information you can use if relevant:'' @ newline
             @ join newline info_sections @ newline @ newline @ ''The email is:''))
   \<and> (snd (enhance_loop w 0 (enhancements_to_apply enhancements)) = Inr [] \<longrightarrow>
        snd (enhance_prompt w base_prompt enhancements) = Inr base_prompt)
   \<and> enhance_prompt w base_prompt (ListSel []) = ([], Inr base_prompt)
   \<and> ((\<forall>k\<in>set xs. k \<noteq> ''all'' \<and> k \<notin> set all_enhancements) \<longrightarrow>
        enhance_prompt w base_prompt (ListSel xs) = ([], Inr base_prompt))"
proof -
  have unknown: "enhance_prompt w base_prompt (ListSel xs) = ([], Inr base_prompt)"
    if "\<forall>k\<in>set xs. k \<noteq> ''all'' \<and> k \<notin> set all_enhancements"
  proof -
    from that have "''all'' \<notin> set xs" by blast
    then have "enhancements_to_apply (ListSel xs) = xs"
      by (simp add: enhancements_to_apply_def)
    moreover have "enhance_loop w 0 xs = ([], Inr [])"
      using that by (intro unknown_loop) blast
    ultimately show ?thesis by (simp add: enhance_prompt_def)
  qed
  have empty: "enhance_prompt w base_prompt (ListSel []) = ([], Inr base_prompt)"
    by (simp add: enhance_prompt_def enhancements_to_apply_def)
  show ?thesis
    using unknown empty by (simp add: enhance_prompt_def Let_def header_line_def trailer_def)
qed

theorem enhance_prompt_assembly_witness:
  "snd (enhance_loop noon_world 0 (enhancements_to_apply (ListSel [''time''])))
     = Inr [''Current time: Monday, 01 January 2024 12:00:00 (UTC)'',
            ''UTC time: 2024-01-01 12:00:00 UTC'']
   \<and> snd (enhance_prompt noon_world ''Be brief.'' (ListSel [''time''])) =
        Inr (''Be brief.'' @ newline @ newline
             @ ''Here is real-time information you can use if relevant:'' @ newline
             @ ''Current time: Monday, 01 January 2024 12:00:00 (UTC)'' @ newline
             @ ''UTC time: 2024-01-01 12:00:00 UTC'' @ newline @ newline @ ''The email is:'')
   \<and> enhance_prompt noon_world ''Be brief.'' (ListSel [''unknown_kind'', ''weather''])
        = ([], Inr ''Be brief.'')"
proof -
  have loop: "snd (enhance_loop noon_world 0 (enhancements_to_apply (ListSel [''time''])))
     = Inr [''Current time: Monday, 01 January 2024 12:00:00 (UTC)'',
            ''UTC time: 2024-01-01 12:00:00 UTC'']"
    by (simp add: enhancements_to_apply_def section_lines_def get_current_time_info_def
        noon_world_def noon_host_def absent_host_def bind_exn_def render_time_def)
  have unk: "\<forall>k\<in>set [''unknown_kind'', ''weather'']. k \<noteq> ''all'' \<and> k \<notin> set all_enhancements"
    by (simp add: all_enhancements_def)
  show ?thesis
    using loop unk
      enhance_prompt_assembly [of noon_world "ListSel [''time'']"
        "[''Current time: Monday, 01 January 2024 12:00:00 (UTC)'',
          ''UTC time: 2024-01-01 12:00:00 UTC'']" "''Be brief.''" "[''unknown_kind'', ''weather'']"]
    by simp
qed

subsection \<open>Rounding\<close>


lemma round_half_even_near:
  assumes "\<bar>x - of_int n\<bar> < 1 / 2"
  shows "round_half_even x = n"
proof -
  have lo: "of_int \<lfloor>x\<rfloor> \<le> x" and hi: "x < of_int \<lfloor>x\<rfloor> + 1"
    by linarith+
  have below: "of_int n - 1 / 2 < x" and above: "x < of_int n + 1 / 2"
    using assms by linarith+
  then have "(of_int (n - 1) :: rat) < of_int (\<lfloor>x\<rfloor> + 1)" and "(of_int \<lfloor>x\<rfloor> :: rat) < of_int (n + 1)"
    using lo hi by simp_all linarith+
  then have "n - 1 < \<lfloor>x\<rfloor> + 1" and "\<lfloor>x\<rfloor> < n + 1"
    by (simp_all only: of_int_less_iff)
  then consider "\<lfloor>x\<rfloor> = n" | "\<lfloor>x\<rfloor> = n - 1" by linarith
  then show ?thesis
  proof cases
    case 1
    have "x - of_int \<lfloor>x\<rfloor> < 1 / 2" unfolding 1 using above by linarith
    with 1 show ?thesis by (simp add: round_half_even_def Let_def)
  next
    case 2
    have "1 / 2 < x - of_int \<lfloor>x\<rfloor>" unfolding 2 using below by simp
    with 2 show ?thesis by (simp add: round_half_even_def Let_def)
  qed
qed

lemma round_half_even_bounds:
  "\<bar>x - of_int (round_half_even x)\<bar> \<le> 1 / 2"
proof -
  have "of_int \<lfloor>x\<rfloor> \<le> x" and "x < of_int \<lfloor>x\<rfloor> + 1"
    by linarith+
  then show ?thesis
    by (auto simp: round_half_even_def Let_def abs_le_iff) 
qed


lemma round2_nearest: "\<bar>round2 x - x\<bar> \<le> 1 / 200"
proof -
  define k where "k = round_half_even (x * 100)"
  have b: "\<bar>x * 100 - of_int k\<bar> \<le> 1 / 2"
    unfolding k_def by (rule round_half_even_bounds)
  have e: "round2 x * 100 = of_int k"
    by (simp add: round2_def k_def)
  show ?thesis using b e by linarith
qed

subsection \<open>True division\<close>

lemma round_half_even_of_int: "round_half_even (of_int z) = z"
  by (rule round_half_even_near) simp

lemma bit_length_bounds:
  "0 < n \<Longrightarrow> 2 ^ (bit_length n - 1) \<le> n \<and> n < 2 ^ bit_length n"
proof (induction n rule: bit_length.induct)
  case (1 n)
  show ?case
  proof (cases "n div 2 = 0")
    case True
    with 1 have "n = 1" by auto
    then show ?thesis by (simp add: bit_length.simps)
  next
    case False
    with 1 have ih: "2 ^ (bit_length (n div 2) - 1) \<le> n div 2" "n div 2 < 2 ^ bit_length (n div 2)"
      by auto
    from False have pos: "0 < bit_length (n div 2)" by (simp add: bit_length.simps)
    have bl: "bit_length n = Suc (bit_length (n div 2))"
      using 1(2) by (subst bit_length.simps) simp
    have "2 ^ (bit_length n - 1) = 2 * 2 ^ (bit_length (n div 2) - 1)"
      using pos by (simp add: bl flip: power_Suc)
    also have "\<dots> \<le> 2 * (n div 2)" using ih(1) by simp
    also have "\<dots> \<le> n" by simp
    finally have lo: "2 ^ (bit_length n - 1) \<le> n" .
    have "n < 2 * (n div 2) + 2" by linarith
    also have "\<dots> \<le> 2 * 2 ^ bit_length (n div 2)" using ih(2) by simp
    finally have "n < 2 ^ bit_length n" by (simp add: bl)
    with lo show ?thesis by simp
  qed
qed

text \<open>\<open>k\<close> in \<^verbatim>\<open>truediv\<close> is the exponent of the leading bit of the quotient.\<close>

lemma leading_bit:
  fixes a b :: int
  assumes "a \<noteq> 0" "b \<noteq> 0"
  defines "x \<equiv> \<bar>of_int a / of_int b\<bar> :: rat"
  defines "d \<equiv> int (bit_length (nat \<bar>a\<bar>)) - int (bit_length (nat \<bar>b\<bar>))"
  defines "k \<equiv> (if 2 powi d \<le> x then d else d - 1)"
  shows "2 powi k \<le> x \<and> x < 2 powi (k + 1)"
proof -
  define n where "n = nat \<bar>a\<bar>"
  define m where "m = nat \<bar>b\<bar>"
  have n: "0 < n" and m: "0 < m" using assms by (simp_all add: n_def m_def)
  have x: "x = of_nat n / of_nat m"
    by (simp add: x_def n_def m_def abs_divide flip: of_int_abs)
  note bn = bit_length_bounds [OF n] and bm = bit_length_bounds [OF m]
  define p where "p = bit_length n"
  define q where "q = bit_length m"
  have ppos: "0 < p" using n by (simp add: p_def bit_length.simps)
  have qpos: "0 < q" using m by (simp add: q_def bit_length.simps)
  have d: "d = int p - int q" by (simp add: d_def p_def q_def n_def m_def)
  have n1: "(2::rat) ^ (p - 1) \<le> of_nat n" and n2: "(of_nat n :: rat) < 2 ^ p"
    using bn unfolding p_def
    by (metis of_nat_le_iff of_nat_numeral of_nat_power, metis of_nat_less_iff of_nat_numeral of_nat_power)
  have m1: "(2::rat) ^ (q - 1) \<le> of_nat m" and m2: "(of_nat m :: rat) < 2 ^ q"
    using bm unfolding q_def
    by (metis of_nat_le_iff of_nat_numeral of_nat_power, metis of_nat_less_iff of_nat_numeral of_nat_power)
  have mpos: "(0::rat) < of_nat m" using m by simp
  have up: "x < 2 powi (d + 1)"
  proof -
    have "of_nat n < (2::rat) ^ p" by (rule n2)
    also have "(2::rat) ^ p = 2 powi (d + 1) * 2 ^ (q - 1)"
    proof -
      have "(2::rat) powi (d + 1) * 2 ^ (q - 1) = 2 powi (d + 1) * 2 powi (int (q - 1))"
        by simp
      also have "\<dots> = 2 powi (d + 1 + int (q - 1))"
        by (simp add: power_int_add)
      also have "d + 1 + int (q - 1) = int p" using qpos by (simp add: d)
      finally show ?thesis by simp
    qed
    also have "\<dots> \<le> 2 powi (d + 1) * of_nat m"
      using m1 by (simp add: mult_left_mono)
    finally have "of_nat n < 2 powi (d + 1) * (of_nat m :: rat)" .
    then show ?thesis using mpos by (simp add: x pos_divide_less_eq)
  qed
  have lo: "2 powi (d - 1) < x"
  proof -
    have "(2::rat) powi (d - 1) * of_nat m < 2 powi (d - 1) * 2 ^ q"
      using m2 by (simp add: mult_strict_left_mono)
    also have "\<dots> = 2 ^ (p - 1)"
    proof -
      have "(2::rat) powi (d - 1) * 2 ^ q = 2 powi (d - 1) * 2 powi (int q)"
        by simp
      also have "\<dots> = 2 powi (d - 1 + int q)"
        by (simp add: power_int_add)
      also have "d - 1 + int q = int (p - 1)" using ppos by (simp add: d)
      finally show ?thesis by simp
    qed
    also have "\<dots> \<le> of_nat n" by (rule n1)
    finally have "(2::rat) powi (d - 1) * of_nat m < of_nat n" .
    then show ?thesis using mpos by (simp add: x pos_less_divide_eq)
  qed
  show ?thesis
  proof (cases "2 powi d \<le> x")
    case True
    then show ?thesis using up by (simp add: k_def)
  next
    case False
    then show ?thesis using lo by (simp add: k_def)
  qed
qed


lemma truediv_exact:
  fixes a b M E :: int
  assumes b: "b \<noteq> 0"
    and q: "(of_int a / of_int b :: rat) = of_int M * 2 powi E"
    and M: "\<bar>M\<bar> < 2 ^ 53"
    and E: "- 1074 \<le> E"
    and r: "\<bar>of_int a / of_int b :: rat\<bar> < 2 ^ 1024"
  shows "truediv a b = Inr (of_int a / of_int b)"
proof (cases "a = 0")
  case True
  then show ?thesis using b by (simp add: truediv_def)
next
  case a: False
  define x :: rat where "x = \<bar>of_int a / of_int b\<bar>"
  define d where "d = int (bit_length (nat \<bar>a\<bar>)) - int (bit_length (nat \<bar>b\<bar>))"
  define k where "k = (if 2 powi d \<le> x then d else d - 1)"
  define e where "e = max (k - 52) (- 1074)"
  have "2 powi k \<le> x \<and> x < 2 powi (k + 1)"
    unfolding k_def x_def d_def by (rule leading_bit [OF a b])
  then have lead: "2 powi k \<le> x" "x < 2 powi (k + 1)" by simp_all
  have xM: "x = of_int \<bar>M\<bar> * 2 powi E"
    by (simp add: x_def q abs_mult)
  have "x < 2 ^ 53 * 2 powi E"
  proof -
    have "(of_int \<bar>M\<bar> :: rat) < of_int (2 ^ 53)" using M by (simp only: of_int_less_iff)
    then have "(of_int \<bar>M\<bar> :: rat) < 2 ^ 53" by simp
    then show ?thesis unfolding xM by (simp add: mult_strict_right_mono)
  qed
  also have "(2::rat) ^ 53 * 2 powi E = 2 powi (53 + E)"
    by (simp add: power_int_add)
  finally have "(2::rat) powi k < 2 powi (53 + E)" using lead(1) by simp
  then have "k < 53 + E"
    by (metis not_le one_le_numeral power_int_increasing linorder_not_less)
  then have eE: "e \<le> E" using E by (simp add: e_def)
  define z where "z = \<bar>M\<bar> * 2 ^ nat (E - e)"
  have "x / 2 powi e = of_int \<bar>M\<bar> * 2 powi (E - e)"
    by (simp add: xM power_int_diff)
  also have "(2::rat) powi (E - e) = 2 ^ nat (E - e)"
    using eE by (simp add: power_int_def)
  finally have mant: "x / 2 powi e = of_int z" by (simp add: z_def)
  have y: "of_int (round_half_even (x / 2 powi e)) * 2 powi e = x"
    unfolding mant round_half_even_of_int by (simp flip: mant)
  have small: "\<not> 2 ^ 1024 \<le> x"
    using r by (simp add: x_def)
  have sign: "(if (a < 0) = (b < 0) then x else - x) = of_int a / of_int b"
    using a b by (auto simp: x_def abs_if divide_less_0_iff not_less zero_le_divide_iff)
  have "truediv a b =
          (if 2 ^ 1024 \<le> x
           then Inl (Exc ''OverflowError'' ''integer division result too large for a float'')
           else Inr (if (a < 0) = (b < 0) then x else - x))"
    apply (simp only: truediv_def Let_def a b if_False)
    apply (fold x_def)
    apply (fold d_def)
    apply (fold k_def)
    apply (fold e_def)
    apply (simp only: y)
    done
  then show ?thesis
    using small sign by (simp only: if_False)
qed

lemma truediv_pow2:
  assumes "\<bar>a\<bar> < 2 ^ 53" and "j \<le> 1074"
  shows "truediv a (2 ^ j) = Inr (of_int a / 2 ^ j)"
proof -
  have q: "(of_int a / of_int (2 ^ j) :: rat) = of_int a * 2 powi (- int j)"
    by (simp add: power_int_minus divide_inverse)
  have "\<bar>of_int a :: rat\<bar> * 1 \<le> \<bar>of_int a\<bar> * 2 ^ j"
    by (intro mult_left_mono) simp_all
  then have "\<bar>of_int a / of_int (2 ^ j) :: rat\<bar> \<le> \<bar>of_int a\<bar>"
    by (simp add: abs_divide divide_le_eq)
  also have "\<dots> < 2 ^ 53"
  proof -
    have "(of_int \<bar>a\<bar> :: rat) < of_int (2 ^ 53)" using assms(1) by (simp only: of_int_less_iff)
    then show ?thesis by simp
  qed
  also have "\<dots> \<le> (2::rat) ^ 1024" by (rule power_increasing) simp_all
  finally have r: "\<bar>of_int a / of_int (2 ^ j) :: rat\<bar> < 2 ^ 1024" .
  have "truediv a (2 ^ j) = Inr (of_int a / of_int (2 ^ j))"
    using assms(2) by (intro truediv_exact [OF _ q assms(1) _ r]) simp_all
  then show ?thesis by simp
qed

lemma round_half_even_tie:
  assumes "x = of_int f + 1 / 2"
  shows "round_half_even x = (if even f then f else f + 1)"
proof -
  have "\<lfloor>x\<rfloor> = f" unfolding assms by (rule floor_unique) simp_all
  then show ?thesis by (simp add: round_half_even_def Let_def assms)
qed

lemma power_int_2_less:
  assumes "(2::rat) powi i < 2 powi j"
  shows "i < j"
proof (rule ccontr)
  assume "\<not> i < j"
  then have "j \<le> i" by simp
  then have "(2::rat) powi j \<le> 2 powi i" by (intro power_int_increasing) simp_all
  with assms show False by simp
qed

text \<open>The quotient of two positive integers, from the exponent of its leading bit.\<close>

lemma truediv_eval:
  fixes a b k :: int
  assumes a: "0 < a" and b: "0 < b"
    and lo: "2 powi k \<le> (of_int a / of_int b :: rat)"
    and hi: "(of_int a / of_int b :: rat) < 2 powi (k + 1)"
    and e: "e = max (k - 52) (- 1074)"
    and m: "round_half_even (of_int a / of_int b / 2 powi e) = m"
    and fin: "of_int m * 2 powi e < (2::rat) ^ 1024"
  shows "truediv a b = Inr (of_int m * 2 powi e)"
proof -
  define x :: rat where "x = \<bar>of_int a / of_int b\<bar>"
  define d where "d = int (bit_length (nat \<bar>a\<bar>)) - int (bit_length (nat \<bar>b\<bar>))"
  define k' where "k' = (if 2 powi d \<le> x then d else d - 1)"
  define e' where "e' = max (k' - 52) (- 1074)"
  have a0: "a \<noteq> 0" and b0: "b \<noteq> 0" using a b by simp_all
  have "2 powi k' \<le> x \<and> x < 2 powi (k' + 1)"
    unfolding k'_def x_def d_def by (rule leading_bit [OF a0 b0])
  then have lead: "2 powi k' \<le> x" "x < 2 powi (k' + 1)" by simp_all
  have x: "x = of_int a / of_int b" using a b by (simp add: x_def)
  have "(2::rat) powi k < 2 powi (k' + 1)" using lo lead(2) unfolding x by simp
  moreover have "(2::rat) powi k' < 2 powi (k + 1)" using hi lead(1) unfolding x by simp
  ultimately have "k < k' + 1" "k' < k + 1" by (simp_all only: power_int_2_less)
  then have "k' = k" by simp
  then have e': "e' = e" by (simp add: e'_def e)
  have neg: "(a < 0) = (b < 0)" using a b by simp
  have "truediv a b =
          (if (2::rat) ^ 1024 \<le> of_int (round_half_even (x / 2 powi e')) * 2 powi e'
           then Inl (Exc ''OverflowError'' ''integer division result too large for a float'')
           else Inr (of_int (round_half_even (x / 2 powi e')) * 2 powi e'))"
    apply (simp only: truediv_def Let_def a0 b0 if_False neg simp_thms if_True)
    apply (fold x_def)
    apply (fold d_def)
    apply (fold k'_def)
    apply (fold e'_def)
    apply (rule refl)
    done
  then show ?thesis
    using fin unfolding e' x m by simp
qed

lemma truediv_large_memory:
  "truediv 9007199388958721 (1024 ^ 3) = Inr (67108865 / 8)"
proof -
  have m: "round_half_even (of_int 9007199388958721 / of_int (1024 ^ 3) / 2 powi (- 29))
             = 4503599694479360"
    by (subst round_half_even_tie [of _ 4503599694479360]) simp_all
  have "truediv 9007199388958721 (1024 ^ 3) = Inr (of_int 4503599694479360 * 2 powi (- 29))"
    by (rule truediv_eval [where k = 23, OF _ _ _ _ _ m]) simp_all
  then show ?thesis by simp
qed

text \<open>
  What \<^verbatim>\<open>truediv\<close> returns is within half a unit of the last place of the quotient: a
  relative error of at most \<open>1 / 2 ^ 53\<close>, or \<open>2 powi (- 1075)\<close> for the subnormal
  ones.
\<close>

lemma truediv_error:
  assumes "truediv a b = Inr y"
  shows "\<bar>y - of_int a / of_int b\<bar>
           \<le> max (\<bar>of_int a / of_int b\<bar> / 2 ^ 53) (2 powi (- 1075))"
proof (cases "a = 0")
  case True
  with assms have "y = 0" by (simp add: truediv_def split: if_splits)
  with True show ?thesis by (simp add: max_def)
next
  case a: False
  have b: "b \<noteq> 0" using assms by (auto simp: truediv_def)
  define x :: rat where "x = \<bar>of_int a / of_int b\<bar>"
  define d where "d = int (bit_length (nat \<bar>a\<bar>)) - int (bit_length (nat \<bar>b\<bar>))"
  define k where "k = (if 2 powi d \<le> x then d else d - 1)"
  define e where "e = max (k - 52) (- 1074)"
  define m where "m = round_half_even (x / 2 powi e)"
  have "2 powi k \<le> x \<and> x < 2 powi (k + 1)"
    unfolding k_def x_def d_def by (rule leading_bit [OF a b])
  then have lead: "2 powi k \<le> x" by simp
  have unfolded: "truediv a b =
          (if (2::rat) ^ 1024 \<le> of_int m * 2 powi e
           then Inl (Exc ''OverflowError'' ''integer division result too large for a float'')
           else Inr (if (a < 0) = (b < 0) then of_int m * 2 powi e else - (of_int m * 2 powi e)))"
    apply (simp only: truediv_def Let_def a b if_False)
    apply (fold x_def)
    apply (fold d_def)
    apply (fold k_def)
    apply (fold e_def)
    apply (fold m_def)
    apply (rule refl)
    done
  have sign: "of_int a / of_int b = (if (a < 0) = (b < 0) then x else - x)"
    using a b by (auto simp: x_def abs_if divide_less_0_iff not_less zero_le_divide_iff)
  from assms unfolded have y: "y = (if (a < 0) = (b < 0) then of_int m * 2 powi e
                                    else - (of_int m * 2 powi e))"
    by (simp split: if_splits)
  have "\<bar>y - of_int a / of_int b\<bar> = \<bar>of_int m * 2 powi e - x\<bar>"
    unfolding y sign by (simp add: abs_minus_commute)
  also have "of_int m * 2 powi e - x = (of_int m - x / 2 powi e) * 2 powi e"
    by (simp add: algebra_simps)
  also have "\<bar>\<dots>\<bar> = \<bar>x / 2 powi e - of_int m\<bar> * 2 powi e"
    by (simp add: abs_mult abs_minus_commute)
  also have "\<dots> \<le> 1 / 2 * 2 powi e"
    unfolding m_def by (intro mult_right_mono round_half_even_bounds) simp
  finally have err: "\<bar>y - of_int a / of_int b\<bar> \<le> 1 / 2 * 2 powi e" .
  show ?thesis
  proof (cases "- 1074 \<le> k - 52")
    case True
    then have "e = k - 52" by (simp add: e_def)
    then have "1 / 2 * (2::rat) powi e = 2 powi k / 2 ^ 53"
      by (simp add: power_int_diff)
    also have "\<dots> \<le> x / 2 ^ 53" using lead by (simp add: divide_right_mono)
    finally have "\<bar>y - of_int a / of_int b\<bar> \<le> x / 2 ^ 53" using err by simp
    then show ?thesis unfolding x_def by (simp add: max_def)
  next
    case False
    then have "e = - 1074" by (simp add: e_def)
    then have "1 / 2 * (2::rat) powi e = 2 powi (- 1075)"
      by (simp add: power_int_minus)
    with err have "\<bar>y - of_int a / of_int b\<bar> \<le> 2 powi (- 1075)" by simp
    then show ?thesis by (simp only: max_def split: if_split) simp
  qed
qed


subsection \<open>Order and duplicates\<close>

lemma upt_shift: "[i..<i + Suc n] = i # [Suc i..<Suc i + n]"
  by (subst upt_rec) simp

lemma enhance_loop_blocks:
  "(\<And>j. j < length xs \<Longrightarrow> snd (section_lines (w (i + j)) (xs ! j)) = Inr (blocks (i + j)))
   \<Longrightarrow> snd (enhance_loop w i xs) = Inr (concat (map blocks [i..<i + length xs]))"
proof (induction xs arbitrary: i)
  case Nil
  then show ?case by simp
next
  case (Cons k ks)
  have first: "snd (section_lines (w i) k) = Inr (blocks i)"
    using Cons.prems [of 0] by simp
  have "snd (section_lines (w (Suc i + j)) (ks ! j)) = Inr (blocks (Suc i + j))"
    if "j < length ks" for j
    using Cons.prems [of "Suc j"] that by simp
  then have rest: "snd (enhance_loop w (Suc i) ks) = Inr (concat (map blocks [Suc i..<Suc i + length ks]))"
    by (rule Cons.IH)
  have "[i..<i + length (k # ks)] = i # [Suc i..<Suc i + length ks]"
    using upt_shift [of i "length ks"] by simp
  with first rest show ?case by simp
qed

text \<open>
  C8. For a list without \<^verbatim>\<open>"all"\<close>, turn \<open>i\<close> of the loop handles the \<open>i\<close>-th element
  of the list: when turn \<open>i\<close> appends the block \<open>blocks i\<close>, the lines of the prompt are
  the blocks in the order of the list, one block for every element, a kind that is
  listed twice giving two blocks at its two positions.
\<close>

theorem explicit_selection_order_and_duplicates:
  assumes "''all'' \<notin> set xs"
    and "\<forall>i<length xs. snd (section_lines (w i) (xs ! i)) = Inr (blocks i)"
  shows "snd (enhance_loop w 0 (enhancements_to_apply (ListSel xs)))
           = Inr (concat (map blocks [0..<length xs]))
         \<and> snd (enhance_prompt w base_prompt (ListSel xs))
           = Inr (if concat (map blocks [0..<length xs]) = [] then base_prompt
                  else base_prompt @ newline @ newline @ header_line @ newline
                       @ join newline (concat (map blocks [0..<length xs]))
                       @ newline @ newline @ trailer)"
proof -
  have sel: "enhancements_to_apply (ListSel xs) = xs"
    using assms(1) by (simp add: enhancements_to_apply_def)
  have "snd (enhance_loop w 0 xs) = Inr (concat (map blocks [0..<0 + length xs]))"
    using assms(2) by (intro enhance_loop_blocks) simp
  then have loop: "snd (enhance_loop w 0 xs) = Inr (concat (map blocks [0..<length xs]))"
    by simp
  show ?thesis
    using loop by (simp add: sel enhance_prompt_def Let_def)
qed

theorem explicit_selection_order_and_duplicates_witness:
  "''all'' \<notin> set [''time'', ''time'']
   \<and> snd (section_lines (noon_world 0) ''time'')
       = Inr [''Current time: Monday, 01 January 2024 12:00:00 (UTC)'',
              ''UTC time: 2024-01-01 12:00:00 UTC'']
   \<and> snd (section_lines (noon_world 1) ''time'')
       = Inr [''Current time: Monday, 01 January 2024 12:00:01 (UTC)'',
              ''UTC time: 2024-01-01 12:00:01 UTC'']
   \<and> snd (enhance_loop noon_world 0 (enhancements_to_apply (ListSel [''time'', ''time''])))
       = Inr [''Current time: Monday, 01 January 2024 12:00:00 (UTC)'',
              ''UTC time: 2024-01-01 12:00:00 UTC'',
              ''Current time: Monday, 01 January 2024 12:00:01 (UTC)'',
              ''UTC time: 2024-01-01 12:00:01 UTC'']"
proof -
  define blocks :: "nat \<Rightarrow> string list" where
    "blocks i =
       (if i = 0 then [''Current time: Monday, 01 January 2024 12:00:00 (UTC)'',
                       ''UTC time: 2024-01-01 12:00:00 UTC'']
        else [''Current time: Monday, 01 January 2024 12:00:01 (UTC)'',
              ''UTC time: 2024-01-01 12:00:01 UTC''])" for i
  have a: "''all'' \<notin> set [''time'', ''time'']" by simp
  have b0: "snd (section_lines (noon_world 0) ''time'') = Inr (blocks 0)"
    by (simp add: section_lines_def get_current_time_info_def noon_world_def noon_host_def
        absent_host_def bind_exn_def render_time_def blocks_def)
  have b1: "snd (section_lines (noon_world 1) ''time'') = Inr (blocks 1)"
    by (simp add: section_lines_def get_current_time_info_def noon_world_def later_host_def
        absent_host_def bind_exn_def render_time_def blocks_def)
  have c: "\<forall>i<length [''time'', ''time''].
             snd (section_lines (noon_world i) ([''time'', ''time''] ! i)) = Inr (blocks i)"
    using b0 b1 by (simp add: less_Suc_eq nth_Cons')
  have "[0..<length [''time'', ''time'']] = [0, 1]"
    by (simp add: upt_conv_Cons)
  then show ?thesis
    using a b0 b1
      explicit_selection_order_and_duplicates [OF a c, of "''x''"]
    by (simp add: blocks_def)
qed

subsection \<open>Network traffic\<close>

text \<open>
  C4. With a first reading of 1,000,000 bytes sent and 2,000,000 received and a second
  of 1,512,000 sent and 3,048,000 received, the probe returns the download speed
  \<^verbatim>\<open>round((3048000 - 2000000) / 1024, 2)\<close>, which is 1023.44, and the upload speed
  \<^verbatim>\<open>round((1512000 - 1000000) / 1024, 2)\<close>, which is 500.
\<close>

theorem network_traffic_speed:
  assumes "net_io_counters_1 (host_traffic h) = Inr (Some io1)"
    and "bytes_sent io1 = 1000000" and "bytes_recv io1 = 2000000"
    and "net_io_counters_2 (host_traffic h) = Inr (Some io2)"
    and "bytes_sent io2 = 1512000" and "bytes_recv io2 = 3048000"
  shows "\<exists>r. get_network_traffic h = ([], Some r)
           \<and> tr_download_speed r = round2 ((3048000 - 2000000) / 1024)
           \<and> tr_download_speed r = 102344 / 100
           \<and> tr_upload_speed r = round2 ((1512000 - 1000000) / 1024)
           \<and> tr_upload_speed r = 500"
proof -
  have d: "round2 ((3048000 - 2000000) / 1024) = 102344 / 100"
    unfolding round2_def by (subst round_half_even_near [of _ 102344]) simp_all
  have u: "round2 ((1512000 - 1000000) / 1024) = 500"
    unfolding round2_def by (subst round_half_even_near [of _ 50000]) simp_all
  have q: "truediv (3048000 - 2000000) 1024 = Inr ((3048000 - 2000000) / 1024)"
    "truediv (1512000 - 1000000) 1024 = Inr ((1512000 - 1000000) / 1024)"
    "truediv 1512000 (1024 * 1024) = Inr (1512000 / (1024 * 1024))"
    "truediv 3048000 (1024 * 1024) = Inr (3048000 / (1024 * 1024))"
    using truediv_pow2 [of 1048000 10] truediv_pow2 [of 512000 10]
      truediv_pow2 [of 1512000 20] truediv_pow2 [of 3048000 20]
    by simp_all
  show ?thesis
    using assms d u q
    by (simp add: get_network_traffic_def guarded_def bind_exn_def attr_of_def Let_def)
qed

theorem network_traffic_speed_witness:
  "net_io_counters_1 (host_traffic traffic_example_host)
     = Inr (Some \<lparr> bytes_sent = 1000000, bytes_recv = 2000000,
                    packets_sent = 700, packets_recv = 1400 \<rparr>)
   \<and> net_io_counters_2 (host_traffic traffic_example_host)
     = Inr (Some \<lparr> bytes_sent = 1512000, bytes_recv = 3048000,
                    packets_sent = 1050, packets_recv = 2100 \<rparr>)
   \<and> (\<exists>r. get_network_traffic traffic_example_host = ([], Some r)
         \<and> tr_download_speed r = 102344 / 100 \<and> tr_upload_speed r = 500)"
proof -
  have readings:
    "net_io_counters_1 (host_traffic traffic_example_host)
       = Inr (Some \<lparr> bytes_sent = 1000000, bytes_recv = 2000000,
                      packets_sent = 700, packets_recv = 1400 \<rparr>)"
    "net_io_counters_2 (host_traffic traffic_example_host)
       = Inr (Some \<lparr> bytes_sent = 1512000, bytes_recv = 3048000,
                      packets_sent = 1050, packets_recv = 2100 \<rparr>)"
    by (simp_all add: traffic_example_host_def absent_host_def)
  obtain r where "get_network_traffic traffic_example_host = ([], Some r)
           \<and> tr_download_speed r = round2 ((3048000 - 2000000) / 1024)
           \<and> tr_download_speed r = 102344 / 100
           \<and> tr_upload_speed r = round2 ((1512000 - 1000000) / 1024)
           \<and> tr_upload_speed r = 500"
    using network_traffic_speed [of traffic_example_host
        "\<lparr> bytes_sent = 1000000, bytes_recv = 2000000, packets_sent = 700, packets_recv = 1400 \<rparr>"
        "\<lparr> bytes_sent = 1512000, bytes_recv = 3048000, packets_sent = 1050, packets_recv = 2100 \<rparr>"]
    by (auto simp: traffic_example_host_def absent_host_def)
  with readings show ?thesis by blast
qed

subsection \<open>Rounded sizes, unrounded percentages\<close>

lemma guarded_Some: "snd (guarded what body) = Some r \<longleftrightarrow> body = Inr r"
  by (simp add: guarded_def split: sum.split)

lemma bind_exn_Inr: "bind_exn m f = Inr r \<longleftrightarrow> (\<exists>x. m = Inr x \<and> f x = Inr r)"
  by (cases m) (simp_all add: bind_exn_def)


















lemma round2_eq:
  "\<bar>x * 100 - of_int n\<bar> < 1 / 2 \<Longrightarrow> round2 x = of_int n / 100"
  by (simp add: round2_def round_half_even_near)

lemma sized_host_quotients:
  "truediv 17179869999 1073741824 = Inr (17179869999 / 1073741824)"
  "truediv 500107862016 1073741824 = Inr (500107862016 / 1073741824)"
  "truediv 211545625633 1073741824 = Inr (211545625633 / 1073741824)"
  "truediv 1512000 1048576 = Inr (1512000 / 1048576)"
  "truediv 3048000 1048576 = Inr (3048000 / 1048576)"
  "truediv 1048000 1024 = Inr (1048000 / 1024)"
  "truediv 512000 1024 = Inr (512000 / 1024)"
  using truediv_pow2 [of 17179869999 30] truediv_pow2 [of 500107862016 30]
    truediv_pow2 [of 211545625633 30] truediv_pow2 [of 1512000 20]
    truediv_pow2 [of 3048000 20] truediv_pow2 [of 1048000 10] truediv_pow2 [of 512000 10]
  by simp_all


text \<open>
  Above \<open>2 ^ 53\<close> the quotient need not be a double, and the field is the rounding of
  the double the division returns: of 9007199388958721 bytes it returns 8388608.125,
  a tie, which rounds to 8388608.12; the exact quotient, a little above the tie, would
  round to 8388608.13.
\<close>

lemma memory_beyond_53_bits:
  "\<exists>s. snd (get_system_info large_memory_host) = Some s \<and> sys_memory_gb s = 838860812 / 100"
  "round2 (of_nat 9007199388958721 / 1024 ^ 3) = 838860813 / 100"
  "\<not> (9007199388958721 :: nat) < 2 ^ 53"
proof -
  have r: "round2 (67108865 / 8) = 838860812 / 100"
    unfolding round2_def by (subst round_half_even_tie [of _ 838860812]) simp_all
  have q: "truediv 9007199388958721 1073741824 = Inr (67108865 / 8)"
    using truediv_large_memory by simp
  show "\<exists>s. snd (get_system_info large_memory_host) = Some s
          \<and> sys_memory_gb s = 838860812 / 100"
    by (simp add: get_system_info_def guarded_def bind_exn_def large_memory_host_def
        sized_host_def traffic_example_host_def absent_host_def Let_def sized_host_quotients q r)
  show "round2 (of_nat 9007199388958721 / 1024 ^ 3) = 838860813 / 100"
    using round2_eq [of "of_nat 9007199388958721 / 1024 ^ 3" 838860813] by simp
  show "\<not> (9007199388958721 :: nat) < 2 ^ 53" by simp
qed

subsection \<open>Ports\<close>


lemma str_nat_digit: "n < 10 \<Longrightarrow> str_nat n = [''0123456789'' ! n]"
  by (simp add: str_nat.simps)

lemma six_scan:
  "scan_connections (psutil_process_name (host_ports six_process_host))
       (map established_by [1, 2, 3, 4, 5, 6]) ([], 0, [])
     = Inr ([], 6, [(''a'', 1), (''b'', 1), (''c'', 1), (''d'', 1), (''e'', 1), (''f'', 1)])"
  by (simp add: six_process_host_def absent_host_def established_by_def)

lemma six_probe:
  "get_open_ports six_process_host
     = ([], Some \<lparr> po_listening_ports = [], po_total_connections = 6, po_established = 6,
                    po_top_processes = [''a (1)'', ''b (1)'', ''c (1)'', ''d (1)'', ''e (1)''] \<rparr>)"
  by (simp add: get_open_ports_def guarded_def bind_exn_def six_process_host_def absent_host_def
      established_by_def top_processes_of_def str_nat_digit Let_def unavailable_def)


lemma twelve_probe:
  "get_open_ports twelve_ports_host
     = ([], Some \<lparr> po_listening_ports = [22, 25, 53, 80, 111, 443, 631, 3306, 5432, 6379, 8080, 9000],
                    po_total_connections = 12, po_established = 0, po_top_processes = [] \<rparr>)"
  by (simp add: get_open_ports_def guarded_def bind_exn_def twelve_ports_host_def absent_host_def
      listening_def top_processes_of_def Let_def)

lemma twelve_render:
  "render_ports \<lparr> po_listening_ports = [22, 25, 53, 80, 111, 443, 631, 3306, 5432, 6379, 8080, 9000],
                    po_total_connections = 12, po_established = 0, po_top_processes = [] \<rparr>
   = [''Open ports and connections:'', ''  Total connections: 12'',
       ''  Listening ports: 22, 25, 53, 80, 111, 443, 631, 3306, 5432, 6379'',
       ''    and 2 more...'', ''  Established connections: 0'',
       ''  Top processes using network: '']"
  by (simp add: render_ports_def str_int_def str_nat.simps)

lemma scan_connections_listening:
  "scan_connections pname cs (lp, est, pc) = Inr (lp', est', pc') \<Longrightarrow>
     set lp \<subseteq> set lp'
     \<and> (distinct lp \<longrightarrow> distinct lp')
     \<and> (\<forall>c\<in>set cs. conn_status c = ''LISTEN'' \<longrightarrow>
           (\<exists>port. conn_laddr_port c = Some port \<and> int port \<in> set lp'))"
proof (induction cs arbitrary: lp est pc)
  case Nil
  then show ?case by simp
next
  case (Cons c cs)
  show ?case
  proof (cases "conn_status c = ''LISTEN''")
    case False
    with Cons.prems obtain est2 pc2 where
      "scan_connections pname cs (lp, est2, pc2) = Inr (lp', est', pc')"
      by simp
    from Cons.IH [OF this] False show ?thesis by simp
  next
    case True
    with Cons.prems obtain port where port: "conn_laddr_port c = Some port"
      by (cases "conn_laddr_port c") auto
    define lp2 where "lp2 = (if int port \<in> set lp then lp else lp @ [int port])"
    from Cons.prems True port obtain est2 pc2 where
      "scan_connections pname cs (lp2, est2, pc2) = Inr (lp', est', pc')"
      by (simp add: lp2_def)
    from Cons.IH [OF this] have ih: "set lp2 \<subseteq> set lp'" "distinct lp2 \<longrightarrow> distinct lp'"
      "\<forall>c\<in>set cs. conn_status c = ''LISTEN'' \<longrightarrow>
           (\<exists>port. conn_laddr_port c = Some port \<and> int port \<in> set lp')"
      by simp_all
    have "set lp \<subseteq> set lp2" "int port \<in> set lp2" "distinct lp \<longrightarrow> distinct lp2"
      by (auto simp: lp2_def)
    with ih port show ?thesis by auto
  qed
qed

lemma netstat_lines_distinct:
  "distinct lp \<Longrightarrow> distinct (netstat_lines ls lp)"
  by (induction ls lp rule: netstat_lines.induct) (auto simp: Let_def split: option.splits)

lemma netstat_lines_superset:
  "set lp \<subseteq> set (netstat_lines ls lp)"
proof (induction ls arbitrary: lp)
  case Nil
  then show ?case by simp
next
  case (Cons line ls)
  have "\<exists>lp2. netstat_lines (line # ls) lp = netstat_lines ls lp2 \<and> set lp \<subseteq> set lp2"
    by (auto simp: Let_def split: option.splits)
  then obtain lp2 where "netstat_lines (line # ls) lp = netstat_lines ls lp2"
    and "set lp \<subseteq> set lp2" by blast
  with Cons.IH [of lp2] show ?case by auto
qed

lemma top_processes_at_most_five: "length (top_processes_of pc) \<le> 5"
  by (simp add: top_processes_of_def)

lemma open_ports_result:
  assumes "snd (get_open_ports h) = Some r"
  shows "sorted (po_listening_ports r) \<and> distinct (po_listening_ports r)
         \<and> length (po_top_processes r) \<le> 5
         \<and> (\<exists>connections. psutil_net_connections (host_ports h) = Inr connections
               \<and> po_total_connections r = length connections
               \<and> (\<forall>c\<in>set connections. conn_status c = ''LISTEN'' \<longrightarrow>
                     (\<exists>port. conn_laddr_port c = Some port
                        \<and> int port \<in> set (po_listening_ports r))))"
proof -
  from assms obtain connections lp est pc where
    conns: "psutil_net_connections (host_ports h) = Inr connections"
    and scan: "scan_connections (psutil_process_name (host_ports h)) connections ([], 0, [])
                 = Inr (lp, est, pc)"
    and r: "r = \<lparr> po_listening_ports =
                    sort (if lp = [] \<and> platform_system h = ''Linux''
                          then (case netstat_output (host_ports h) of
                                  Inr output \<Rightarrow> netstat_lines (split output newline) lp
                                | Inl e \<Rightarrow> lp)
                          else lp),
                  po_total_connections = length connections,
                  po_established = est,
                  po_top_processes = top_processes_of pc \<rparr>"
    by (auto simp: get_open_ports_def guarded_Some bind_exn_Inr Let_def)
  define lp' where "lp' = (if lp = [] \<and> platform_system h = ''Linux''
                          then (case netstat_output (host_ports h) of
                                  Inr output \<Rightarrow> netstat_lines (split output newline) lp
                                | Inl e \<Rightarrow> lp)
                          else lp)"
  from scan_connections_listening [OF scan] have
    d: "distinct lp"
    and l: "\<forall>c\<in>set connections. conn_status c = ''LISTEN'' \<longrightarrow>
           (\<exists>port. conn_laddr_port c = Some port \<and> int port \<in> set lp)"
    by simp_all
  have sub: "set lp \<subseteq> set lp'"
    using netstat_lines_superset by (auto simp: lp'_def split: sum.splits)
  have dis: "distinct lp'"
    using d netstat_lines_distinct by (auto simp: lp'_def split: sum.splits)
  have ports: "po_listening_ports r = sort lp'"
    by (simp add: r lp'_def)
  have "\<forall>c\<in>set connections. conn_status c = ''LISTEN'' \<longrightarrow>
           (\<exists>port. conn_laddr_port c = Some port \<and> int port \<in> set (po_listening_ports r))"
    using l sub by (fastforce simp: ports)
  moreover have "sorted (po_listening_ports r)" "distinct (po_listening_ports r)"
    using dis by (simp_all add: ports)
  moreover have "length (po_top_processes r) \<le> 5"
    by (simp add: r top_processes_at_most_five)
  moreover have "po_total_connections r = length connections"
    by (simp add: r)
  ultimately show ?thesis using conns by blast
qed


text \<open>
  C5. The claim holds for the listening ports and fails for the top processes: the probe
  itself cuts \<^verbatim>\<open>sorted(process_connections.items(), ...)\<close> to five entries, and the result
  has no other field for the processes. Six processes with one connection each are all
  counted by the loop, and the result names five of them.
\<close>

theorem top_processes_cut_in_probe:
  "scan_connections (psutil_process_name (host_ports six_process_host))
       (map established_by [1, 2, 3, 4, 5, 6]) ([], 0, [])
     = Inr ([], 6, [(''a'', 1), (''b'', 1), (''c'', 1), (''d'', 1), (''e'', 1), (''f'', 1)])
   \<and> get_open_ports six_process_host
     = ([], Some \<lparr> po_listening_ports = [], po_total_connections = 6, po_established = 6,
                    po_top_processes = [''a (1)'', ''b (1)'', ''c (1)'', ''d (1)'', ''e (1)''] \<rparr>)"
  using six_scan six_probe by simp

text \<open>
  C5, as amended. The result of the ports probe holds every listening port, once, in
  ascending order; the renderer prints the first ten and, for twelve ports, the line
  \<^verbatim>\<open>and 2 more...\<close> (for \<open>n > 10\<close> ports, \<open>n - 10\<close>; no such line up to ten). The top
  processes are cut to at most five by the probe, and the renderer prints every entry of
  the result.
\<close>

theorem ports_truncation:
  "(length (po_listening_ports r) = 12 \<longrightarrow>
      render_ports r =
        [''Open ports and connections:'',
         ''  Total connections: '' @ str_nat (po_total_connections r),
         ''  Listening ports: '' @ join '', '' (map str_int (take 10 (po_listening_ports r))),
         ''    and 2 more...'',
         ''  Established connections: '' @ str_nat (po_established r),
         ''  Top processes using network: '' @ join '', '' (po_top_processes r)])
   \<and> (10 < length (po_listening_ports r) \<longrightarrow>
      render_ports r =
        [''Open ports and connections:'',
         ''  Total connections: '' @ str_nat (po_total_connections r),
         ''  Listening ports: '' @ join '', '' (map str_int (take 10 (po_listening_ports r))),
         ''    and '' @ str_nat (length (po_listening_ports r) - 10) @ '' more...'',
         ''  Established connections: '' @ str_nat (po_established r),
         ''  Top processes using network: '' @ join '', '' (po_top_processes r)])
   \<and> (length (po_listening_ports r) \<le> 10 \<longrightarrow>
      render_ports r =
        [''Open ports and connections:'',
         ''  Total connections: '' @ str_nat (po_total_connections r),
         ''  Listening ports: '' @ join '', '' (map str_int (po_listening_ports r)),
         ''  Established connections: '' @ str_nat (po_established r),
         ''  Top processes using network: '' @ join '', '' (po_top_processes r)])
   \<and> (snd (get_open_ports h) = Some r \<longrightarrow>
        sorted (po_listening_ports r) \<and> distinct (po_listening_ports r)
        \<and> length (po_top_processes r) \<le> 5
        \<and> (\<exists>connections. psutil_net_connections (host_ports h) = Inr connections
              \<and> po_total_connections r = length connections
              \<and> (\<forall>c\<in>set connections. conn_status c = ''LISTEN'' \<longrightarrow>
                    (\<exists>port. conn_laddr_port c = Some port
                       \<and> int port \<in> set (po_listening_ports r)))))"
proof -
  have c1: "length (po_listening_ports r) = 12 \<longrightarrow>
      render_ports r =
        [''Open ports and connections:'',
         ''  Total connections: '' @ str_nat (po_total_connections r),
         ''  Listening ports: '' @ join '', '' (map str_int (take 10 (po_listening_ports r))),
         ''    and 2 more...'',
         ''  Established connections: '' @ str_nat (po_established r),
         ''  Top processes using network: '' @ join '', '' (po_top_processes r)]"
    by (simp add: render_ports_def str_nat_digit)
  have c2: "10 < length (po_listening_ports r) \<longrightarrow>
      render_ports r =
        [''Open ports and connections:'',
         ''  Total connections: '' @ str_nat (po_total_connections r),
         ''  Listening ports: '' @ join '', '' (map str_int (take 10 (po_listening_ports r))),
         ''    and '' @ str_nat (length (po_listening_ports r) - 10) @ '' more...'',
         ''  Established connections: '' @ str_nat (po_established r),
         ''  Top processes using network: '' @ join '', '' (po_top_processes r)]"
    by (simp add: render_ports_def)
  have c3: "length (po_listening_ports r) \<le> 10 \<longrightarrow>
      render_ports r =
        [''Open ports and connections:'',
         ''  Total connections: '' @ str_nat (po_total_connections r),
         ''  Listening ports: '' @ join '', '' (map str_int (po_listening_ports r)),
         ''  Established connections: '' @ str_nat (po_established r),
         ''  Top processes using network: '' @ join '', '' (po_top_processes r)]"
    by (simp add: render_ports_def)
  have c4: "snd (get_open_ports h) = Some r \<longrightarrow>
        sorted (po_listening_ports r) \<and> distinct (po_listening_ports r)
        \<and> length (po_top_processes r) \<le> 5
        \<and> (\<exists>connections. psutil_net_connections (host_ports h) = Inr connections
              \<and> po_total_connections r = length connections
              \<and> (\<forall>c\<in>set connections. conn_status c = ''LISTEN'' \<longrightarrow>
                    (\<exists>port. conn_laddr_port c = Some port
                       \<and> int port \<in> set (po_listening_ports r))))"
    using open_ports_result [of h r] by blast
  show ?thesis
    by (intro conjI) (fact c1, fact c2, fact c3, fact c4)
qed

theorem ports_truncation_witness:
  "snd (get_open_ports twelve_ports_host)
     = Some \<lparr> po_listening_ports = [22, 25, 53, 80, 111, 443, 631, 3306, 5432, 6379, 8080, 9000],
              po_total_connections = 12, po_established = 0, po_top_processes = [] \<rparr>
   \<and> length [22, 25, 53, 80, 111, 443, 631, 3306, 5432, 6379, 8080, 9000 :: int] = 12
   \<and> render_ports
        \<lparr> po_listening_ports = [22, 25, 53, 80, 111, 443, 631, 3306, 5432, 6379, 8080, 9000],
          po_total_connections = 12, po_established = 0, po_top_processes = [] \<rparr>
     = [''Open ports and connections:'', ''  Total connections: 12'',
        ''  Listening ports: 22, 25, 53, 80, 111, 443, 631, 3306, 5432, 6379'',
        ''    and 2 more...'', ''  Established connections: 0'',
        ''  Top processes using network: '']
   \<and> sorted [22, 25, 53, 80, 111, 443, 631, 3306, 5432, 6379, 8080, 9000 :: int]"
proof -
  define r where
    "r = \<lparr> po_listening_ports = [22, 25, 53, 80, 111, 443, 631, 3306, 5432, 6379, 8080, 9000],
           po_total_connections = 12, po_established = 0, po_top_processes = [] \<rparr>"
  have p: "snd (get_open_ports twelve_ports_host) = Some r"
    by (simp add: twelve_probe r_def)
  have l: "length (po_listening_ports r) = 12"
    by (simp add: r_def)
  have "render_ports r =
        [''Open ports and connections:'',
         ''  Total connections: '' @ str_nat (po_total_connections r),
         ''  Listening ports: '' @ join '', '' (map str_int (take 10 (po_listening_ports r))),
         ''    and 2 more...'',
         ''  Established connections: '' @ str_nat (po_established r),
         ''  Top processes using network: '' @ join '', '' (po_top_processes r)]"
    and "sorted (po_listening_ports r)"
    using ports_truncation [of r twelve_ports_host] p l by blast+
  then show ?thesis
    using p by (simp add: r_def str_int_def str_nat.simps)
qed

subsection \<open>Services\<close>


lemma lower_contains:
  assumes "str_contains c n"
  shows "str_contains (lower c) (lower n)"
proof -
  from assms obtain p q where "n = p @ c @ q"
    by (auto simp: str_contains_iff)
  then have "lower n = lower p @ lower c @ lower q"
    by (simp add: lower_def)
  then show ?thesis
    unfolding str_contains_iff by blast
qed

lemma critical_names_lower: "c \<in> set critical_service_names \<Longrightarrow> lower c = c"
  by (auto simp: critical_service_names_def lower_def lower_char_def)

lemma is_critical_iff:
  "is_critical n \<longleftrightarrow> (\<exists>c\<in>set critical_service_names. str_contains c (lower n))"
  by (simp add: is_critical_def list_ex_iff)

lemma is_windows_critical_iff:
  "is_windows_critical n \<longleftrightarrow> (\<exists>c\<in>set windows_critical. str_contains (lower c) (lower n))"
  by (simp add: is_windows_critical_def list_ex_iff)

lemma contains_is_critical:
  "c \<in> set critical_service_names \<Longrightarrow> str_contains c n \<Longrightarrow> is_critical n"
  using lower_contains [of c n] critical_names_lower [of c] by (auto simp: is_critical_iff)

lemma contains_is_windows_critical:
  "c \<in> set windows_critical \<Longrightarrow> str_contains c n \<Longrightarrow> is_windows_critical n"
  using lower_contains [of c n] by (auto simp: is_windows_critical_iff)

lemma systemctl_lines_critical:
  "systemctl_lines ls (sv0, cr0) = (sv, cr) \<Longrightarrow>
     (\<forall>n\<in>set sv0. is_critical n \<longrightarrow> n \<in> set cr0) \<Longrightarrow>
     (\<forall>n\<in>set cr0. is_critical n \<and> n \<in> set sv0) \<Longrightarrow>
     (\<forall>n\<in>set sv. is_critical n \<longrightarrow> n \<in> set cr) \<and> (\<forall>n\<in>set cr. is_critical n \<and> n \<in> set sv)"
proof (induction ls arbitrary: sv0 cr0)
  case Nil
  then show ?case by simp
next
  case (Cons line ls)
  show ?case
  proof (cases "str_contains ''.service'' line \<and> str_contains ''running'' line")
    case False
    with Cons.prems(1) have "systemctl_lines ls (sv0, cr0) = (sv, cr)" by auto
    from Cons.IH [OF this Cons.prems(2,3)] show ?thesis .
  next
    case True
    show ?thesis
    proof (cases "split line ''.service''")
      case Nil
      with True Cons.prems show ?thesis by auto
    next
      case (Cons a rest)
      define name where "name = strip a"
      define sv1 where "sv1 = sv0 @ [name]"
      define cr1 where "cr1 = (if is_critical name then cr0 @ [name] else cr0)"
      from True Cons Cons.prems(1) have "systemctl_lines ls (sv1, cr1) = (sv, cr)"
        by (auto simp: sv1_def cr1_def name_def Let_def split: if_splits)
      moreover have "\<forall>n\<in>set sv1. is_critical n \<longrightarrow> n \<in> set cr1"
        using Cons.prems(2) by (auto simp: sv1_def cr1_def)
      moreover have "\<forall>n\<in>set cr1. is_critical n \<and> n \<in> set sv1"
        using Cons.prems(3) by (auto simp: sv1_def cr1_def)
      ultimately show ?thesis by (rule Cons.IH)
    qed
  qed
qed


lemma status_all_lines_unbound:
  "status_all_lines ls (None, services, critical_services) = (services, critical_services)"
  by (induction ls) simp_all

lemma net_start_lines_critical:
  "net_start_lines ls (sv0, cr0) = (sv, cr) \<Longrightarrow>
     (\<forall>n\<in>set sv0. is_windows_critical n \<longrightarrow> n \<in> set cr0) \<Longrightarrow>
     (\<forall>n\<in>set cr0. is_windows_critical n \<and> n \<in> set sv0) \<Longrightarrow>
     (\<forall>n\<in>set sv. is_windows_critical n \<longrightarrow> n \<in> set cr)
     \<and> (\<forall>n\<in>set cr. is_windows_critical n \<and> n \<in> set sv)"
proof (induction ls arbitrary: sv0 cr0)
  case Nil
  then show ?case by simp
next
  case (Cons l ls)
  define line where "line = strip l"
  show ?case
  proof (cases "line \<noteq> [] \<and> \<not> startswith line ''The following'' \<and> \<not> startswith line ''The command''")
    case False
    with Cons.prems(1) have "net_start_lines ls (sv0, cr0) = (sv, cr)"
      by (auto simp: line_def Let_def)
    from Cons.IH [OF this Cons.prems(2,3)] show ?thesis .
  next
    case True
    define sv1 where "sv1 = sv0 @ [line]"
    define cr1 where "cr1 = (if is_windows_critical line then cr0 @ [line] else cr0)"
    from True Cons.prems(1) have "net_start_lines ls (sv1, cr1) = (sv, cr)"
      by (auto simp: sv1_def cr1_def line_def Let_def split: if_splits)
    moreover have "\<forall>n\<in>set sv1. is_windows_critical n \<longrightarrow> n \<in> set cr1"
      using Cons.prems(2) by (auto simp: sv1_def cr1_def)
    moreover have "\<forall>n\<in>set cr1. is_windows_critical n \<and> n \<in> set sv1"
      using Cons.prems(3) by (auto simp: sv1_def cr1_def)
    ultimately show ?thesis by (rule Cons.IH)
  qed
qed

lemma scan_processes_set:
  "scan_processes ps cr0 = Inr cr \<Longrightarrow>
     set cr = set cr0 \<union> {n. Some n \<in> set ps \<and> is_critical n}"
proof (induction ps arbitrary: cr0)
  case Nil
  then show ?case by simp
next
  case (Cons name ps)
  from Cons.prems obtain n where n: "name = Some n"
    by (cases name) auto
  define cr1 where "cr1 = (if is_critical n then cr0 @ [n] else cr0)"
  from Cons.prems n have "scan_processes ps cr1 = Inr cr"
    by (auto simp: cr1_def split: if_splits)
  from Cons.IH [OF this] show ?case
    using n by (auto simp: cr1_def)
qed





lemma systemctl_lines_critical0:
  "systemctl_lines ls ([], []) = (sv, cr) \<Longrightarrow>
     (\<forall>n\<in>set sv. is_critical n \<longrightarrow> n \<in> set cr) \<and> (\<forall>n\<in>set cr. is_critical n \<and> n \<in> set sv)"
  using systemctl_lines_critical [of ls "[]" "[]" sv cr] by simp

lemma net_start_lines_critical0:
  "net_start_lines ls ([], []) = (sv, cr) \<Longrightarrow>
     (\<forall>n\<in>set sv. is_windows_critical n \<longrightarrow> n \<in> set cr)
     \<and> (\<forall>n\<in>set cr. is_windows_critical n \<and> n \<in> set sv)"
  using net_start_lines_critical [of ls "[]" "[]" sv cr] by simp

lemma discover_services_cases:
  "(platform_system h = ''Linux''
      \<and> (\<exists>out. systemctl_output (host_services h) = Inr out
            \<and> discover_services h = systemctl_lines (split out newline) ([], [])))
   \<or> (platform_system h = ''Windows''
      \<and> (\<exists>out. net_start_output (host_services h) = Inr out
            \<and> discover_services h = net_start_lines (split out newline) ([], [])))
   \<or> discover_services h = ([], [])"
proof (cases "platform_system h = ''Linux''")
  case True
  then show ?thesis
    by (cases "systemctl_output (host_services h)";
        cases "service_status_all_output (host_services h)")
       (simp_all add: discover_services_def status_all_lines_unbound)
next
  case False
  then show ?thesis
    by (cases "net_start_output (host_services h)") (simp_all add: discover_services_def)
qed

lemma discover_services_inv:
  assumes "discover_services h = (sv, cr)"
  shows "(platform_system h \<noteq> ''Windows'' \<longrightarrow>
           (\<forall>n\<in>set sv. is_critical n \<longrightarrow> n \<in> set cr) \<and> (\<forall>n\<in>set cr. is_critical n \<and> n \<in> set sv))
         \<and> (platform_system h = ''Windows'' \<longrightarrow>
           (\<forall>n\<in>set sv. is_windows_critical n \<longrightarrow> n \<in> set cr)
           \<and> (\<forall>n\<in>set cr. is_windows_critical n \<and> n \<in> set sv))"
proof -
  consider
    (linux) out where "platform_system h = ''Linux''"
      "discover_services h = systemctl_lines (split out newline) ([], [])"
  | (windows) out where "platform_system h = ''Windows''"
      "discover_services h = net_start_lines (split out newline) ([], [])"
  | (none) "discover_services h = ([], [])"
    using discover_services_cases [of h] by blast
  then show ?thesis
  proof cases
    case linux
    have nw: "platform_system h \<noteq> ''Windows''"
      unfolding linux(1) by simp
    from linux(2) assms have "systemctl_lines (split out newline) ([], []) = (sv, cr)"
      by simp
    from systemctl_lines_critical0 [OF this] nw show ?thesis by blast
  next
    case windows
    from windows(2) assms have "net_start_lines (split out newline) ([], []) = (sv, cr)"
      by simp
    from net_start_lines_critical0 [OF this] windows(1) show ?thesis by blast
  next
    case none
    with assms have "sv = []" "cr = []" by simp_all
    then show ?thesis by simp
  qed
qed

lemma discover_services_none:
  assumes "discover_services h = ([], cr)"
  shows "cr = []"
proof -
  from discover_services_inv [OF assms] have "\<forall>n\<in>set cr. n \<in> set ([] :: string list)"
    by blast
  then show ?thesis by (cases cr) auto
qed



lemma services_result:
  assumes "snd (get_services_info h) = Some r"
  shows "\<exists>sv cr cr'.
           discover_services h = (sv, cr) \<and> sv_services r = sv
           \<and> sv_running_count r = length sv \<and> sv_critical r = set_order h cr'
           \<and> (sv \<noteq> [] \<longrightarrow> cr' = cr)
           \<and> (sv = [] \<longrightarrow>
                (\<exists>names. process_iter_names (host_services h) = Inr names
                   \<and> scan_processes names cr = Inr cr'))"
proof -
  obtain sv cr where d: "discover_services h = (sv, cr)"
    by (cases "discover_services h")
  show ?thesis
  proof (cases "sv = []")
    case True
    with assms d obtain names cr' where
      "process_iter_names (host_services h) = Inr names"
      "scan_processes names cr = Inr cr'"
      "r = \<lparr> sv_running_count = length sv, sv_services = sv, sv_critical = set_order h cr' \<rparr>"
      by (auto simp: get_services_info_def guarded_Some bind_exn_Inr)
    with d True show ?thesis by auto
  next
    case False
    with assms d have
      "r = \<lparr> sv_running_count = length sv, sv_services = sv, sv_critical = set_order h cr \<rparr>"
      by (auto simp: get_services_info_def guarded_Some bind_exn_Inr)
    with d False show ?thesis by auto
  qed
qed



text \<open>
  C6. In the result of the services probe, every discovered service and, when the scan
  of the process list ran, every scanned process whose name contains one of the critical
  names (\<^verbatim>\<open>nginx\<close> in \<^verbatim>\<open>nginx-worker\<close>; the code compares the lower-cased name) is in
  the critical list, and the list holds no name twice: equal names give one entry,
  different names one entry each. On a host that reports \<^verbatim>\<open>Windows\<close> the services are
  matched against the list of Windows services instead; the module imports \<^verbatim>\<open>pwd\<close>, so
  it does not load there. The order of a Python set is any order \<open>set_order\<close> that is
  valid.
\<close>

theorem critical_classification:
  assumes "snd (get_services_info h) = Some r"
    and "valid_set_order (set_order h)"
  shows "distinct (sv_critical r)
     \<and> (platform_system h \<noteq> ''Windows'' \<longrightarrow>
          (\<forall>n\<in>set (sv_services r).
             (\<exists>c\<in>set critical_service_names. str_contains c n \<or> str_contains c (lower n))
             \<longrightarrow> n \<in> set (sv_critical r)))
     \<and> (platform_system h = ''Windows'' \<longrightarrow>
          (\<forall>n\<in>set (sv_services r).
             (\<exists>c\<in>set windows_critical. str_contains c n \<or> str_contains (lower c) (lower n))
             \<longrightarrow> n \<in> set (sv_critical r)))
     \<and> (sv_services r = [] \<longrightarrow>
          (\<exists>names. process_iter_names (host_services h) = Inr names
             \<and> (\<forall>n. Some n \<in> set names
                   \<and> (\<exists>c\<in>set critical_service_names. str_contains c n \<or> str_contains c (lower n))
                   \<longrightarrow> n \<in> set (sv_critical r))))"
proof -
  from services_result [OF assms(1)] obtain sv cr cr' where
    d: "discover_services h = (sv, cr)"
    and sv: "sv_services r = sv"
    and crit: "sv_critical r = set_order h cr'"
    and some: "sv \<noteq> [] \<longrightarrow> cr' = cr"
    and none: "sv = [] \<longrightarrow>
                (\<exists>names. process_iter_names (host_services h) = Inr names
                   \<and> scan_processes names cr = Inr cr')"
    by blast
  from assms(2) have order: "distinct (set_order h cr')" "set (set_order h cr') = set cr'"
    by (simp_all add: valid_set_order_def)
  note inv = discover_services_inv [OF d]
  have crit_iff: "is_critical n"
    if "\<exists>c\<in>set critical_service_names. str_contains c n \<or> str_contains c (lower n)" for n
    using that contains_is_critical is_critical_iff by blast
  have win_iff: "is_windows_critical n"
    if "\<exists>c\<in>set windows_critical. str_contains c n \<or> str_contains (lower c) (lower n)" for n
    using that contains_is_windows_critical is_windows_critical_iff by blast
  have keep: "set cr \<subseteq> set cr'"
  proof (cases "sv = []")
    case True
    with none obtain names where "scan_processes names cr = Inr cr'" by blast
    from scan_processes_set [OF this] show ?thesis by blast
  next
    case False
    with some show ?thesis by simp
  qed
  have c1: "distinct (sv_critical r)"
    by (simp add: crit order)
  have c2: "platform_system h \<noteq> ''Windows'' \<longrightarrow>
          (\<forall>n\<in>set (sv_services r).
             (\<exists>c\<in>set critical_service_names. str_contains c n \<or> str_contains c (lower n))
             \<longrightarrow> n \<in> set (sv_critical r))"
  proof (intro impI ballI)
    fix n
    assume "platform_system h \<noteq> ''Windows''" and "n \<in> set (sv_services r)"
      and "\<exists>c\<in>set critical_service_names. str_contains c n \<or> str_contains c (lower n)"
    then have "n \<in> set cr" using inv crit_iff sv by blast
    then show "n \<in> set (sv_critical r)" using keep by (auto simp: crit order)
  qed
  have c3: "platform_system h = ''Windows'' \<longrightarrow>
          (\<forall>n\<in>set (sv_services r).
             (\<exists>c\<in>set windows_critical. str_contains c n \<or> str_contains (lower c) (lower n))
             \<longrightarrow> n \<in> set (sv_critical r))"
  proof (intro impI ballI)
    fix n
    assume "platform_system h = ''Windows''" and "n \<in> set (sv_services r)"
      and "\<exists>c\<in>set windows_critical. str_contains c n \<or> str_contains (lower c) (lower n)"
    then have "n \<in> set cr" using inv win_iff sv by blast
    then show "n \<in> set (sv_critical r)" using keep by (auto simp: crit order)
  qed
  have c4: "sv_services r = [] \<longrightarrow>
          (\<exists>names. process_iter_names (host_services h) = Inr names
             \<and> (\<forall>n. Some n \<in> set names
                   \<and> (\<exists>c\<in>set critical_service_names. str_contains c n \<or> str_contains c (lower n))
                   \<longrightarrow> n \<in> set (sv_critical r)))"
  proof
    assume "sv_services r = []"
    with sv none obtain names where names: "process_iter_names (host_services h) = Inr names"
      and scan: "scan_processes names cr = Inr cr'" by auto
    have "n \<in> set (sv_critical r)"
      if "Some n \<in> set names \<and>
          (\<exists>c\<in>set critical_service_names. str_contains c n \<or> str_contains c (lower n))" for n
    proof -
      from that have "Some n \<in> set names" and "is_critical n" using crit_iff by blast+
      then have "n \<in> set cr'" using scan_processes_set [OF scan] by blast
      then show ?thesis by (simp add: crit order)
    qed
    with names show "\<exists>names. process_iter_names (host_services h) = Inr names
             \<and> (\<forall>n. Some n \<in> set names
                   \<and> (\<exists>c\<in>set critical_service_names. str_contains c n \<or> str_contains c (lower n))
                   \<longrightarrow> n \<in> set (sv_critical r))"
      by blast
  qed
  show ?thesis
    by (intro conjI) (fact c1, fact c2, fact c3, fact c4)
qed


lemma nginx_discover: "discover_services nginx_process_host = ([], [])"
  by (simp add: discover_services_def nginx_process_host_def absent_host_def)

lemma nginx_probe:
  "get_services_info nginx_process_host
     = ([], Some \<lparr> sv_running_count = 0, sv_services = [],
                    sv_critical = [''nginx-main'', ''nginx-worker''] \<rparr>)"
  by (simp add: get_services_info_def guarded_def bind_exn_def nginx_discover)
     (simp add: nginx_process_host_def absent_host_def is_critical_def critical_service_names_def
        lower_def lower_char_def)

lemma systemd_probe:
  "get_services_info systemd_host
     = ([], Some \<lparr> sv_running_count = 3, sv_services = [''nginx'', ''getty'', ''cron''],
                    sv_critical = [''nginx'', ''cron''] \<rparr>)"
  by (simp add: get_services_info_def guarded_def bind_exn_def discover_services_def
      systemd_host_def absent_host_def split_def newline_def strip_def isspace_def
      is_critical_def critical_service_names_def lower_def lower_char_def Let_def)


lemma remdups_valid: "valid_set_order remdups"
  by (simp add: valid_set_order_def)

theorem critical_classification_witness:
  "snd (get_services_info nginx_process_host)
     = Some \<lparr> sv_running_count = 0, sv_services = [],
              sv_critical = [''nginx-main'', ''nginx-worker''] \<rparr>
   \<and> valid_set_order (set_order nginx_process_host)
   \<and> process_iter_names (host_services nginx_process_host)
       = Inr [Some ''nginx-worker'', Some ''nginx-main'', Some ''nginx-worker'', Some ''bash'']
   \<and> str_contains ''nginx'' ''nginx-worker'' \<and> str_contains ''nginx'' ''nginx-main''
   \<and> ''nginx-worker'' \<in> set [''nginx-main'', ''nginx-worker'']
   \<and> ''nginx-main'' \<in> set [''nginx-main'', ''nginx-worker'']
   \<and> distinct [''nginx-main'', ''nginx-worker'']
   \<and> snd (get_services_info systemd_host)
     = Some \<lparr> sv_running_count = 3, sv_services = [''nginx'', ''getty'', ''cron''],
              sv_critical = [''nginx'', ''cron''] \<rparr>
   \<and> valid_set_order (set_order systemd_host)
   \<and> platform_system systemd_host \<noteq> ''Windows''
   \<and> ''nginx'' \<in> set [''nginx'', ''cron'']"
proof -
  define r where "r = \<lparr> sv_running_count = 0, sv_services = [],
              sv_critical = [''nginx-main'', ''nginx-worker''] \<rparr>"
  define r' where "r' = \<lparr> sv_running_count = 3, sv_services = [''nginx'', ''getty'', ''cron''],
              sv_critical = [''nginx'', ''cron''] \<rparr>"
  have p: "snd (get_services_info nginx_process_host) = Some r"
    by (simp add: nginx_probe r_def)
  have v: "valid_set_order (set_order nginx_process_host)"
    by (simp add: nginx_process_host_def absent_host_def remdups_valid)
  have names: "process_iter_names (host_services nginx_process_host)
       = Inr [Some ''nginx-worker'', Some ''nginx-main'', Some ''nginx-worker'', Some ''bash'']"
    by (simp add: nginx_process_host_def absent_host_def)
  have c: "''nginx'' \<in> set critical_service_names"
    by (simp add: critical_service_names_def)
  have s1: "str_contains ''nginx'' ''nginx-worker''" and s2: "str_contains ''nginx'' ''nginx-main''"
    by simp_all
  note t = critical_classification [OF p v]
  have e: "sv_services r = []" by (simp add: r_def)
  from t e names have all: "\<forall>n. Some n \<in> set [Some ''nginx-worker'', Some ''nginx-main'',
                               Some ''nginx-worker'', Some ''bash'']
                   \<and> (\<exists>c\<in>set critical_service_names. str_contains c n \<or> str_contains c (lower n))
                   \<longrightarrow> n \<in> set (sv_critical r)"
    by auto
  have mem: "Some ''nginx-worker'' \<in> set [Some ''nginx-worker'', Some ''nginx-main'',
                               Some ''nginx-worker'', Some ''bash'']"
    "Some ''nginx-main'' \<in> set [Some ''nginx-worker'', Some ''nginx-main'',
                               Some ''nginx-worker'', Some ''bash'']"
    by simp_all
  have w: "''nginx-worker'' \<in> set (sv_critical r)"
    using all c s1 mem(1) by blast
  have m: "''nginx-main'' \<in> set (sv_critical r)"
    using all c s2 mem(2) by blast
  have d: "distinct (sv_critical r)"
    using t by blast
  have p': "snd (get_services_info systemd_host) = Some r'"
    by (simp add: systemd_probe r'_def)
  have v': "valid_set_order (set_order systemd_host)"
    by (simp add: systemd_host_def absent_host_def remdups_valid)
  have nw: "platform_system systemd_host \<noteq> ''Windows''"
    by (simp add: systemd_host_def absent_host_def)
  have "''nginx'' \<in> set (sv_services r')" and "str_contains ''nginx'' ''nginx''"
    by (simp_all add: r'_def)
  with critical_classification [OF p' v'] nw c have n: "''nginx'' \<in> set (sv_critical r')"
    by blast
  from p v names s1 s2 w m d p' v' nw n show ?thesis
    by (simp add: r_def r'_def)
qed

text \<open>
  C10. When the service commands discovered no service, the scan of the process list
  runs and appends only to the critical list: the result has \<^verbatim>\<open>running_count\<close> 0 and
  an empty \<^verbatim>\<open>services\<close>, whatever the scan found, and its critical list holds the
  critical process names. The block then reads \<^verbatim>\<open>Running services: 0\<close> above the line
  of the critical services.
\<close>

theorem fallback_running_count_zero:
  assumes "fst (discover_services h) = []"
    and "snd (get_services_info h) = Some r"
  shows "sv_running_count r = 0 \<and> sv_services r = []
     \<and> (\<exists>names found.
           process_iter_names (host_services h) = Inr names
           \<and> scan_processes names [] = Inr found
           \<and> sv_critical r = set_order h found
           \<and> set found = {n. Some n \<in> set names \<and> is_critical n})
     \<and> render_services r =
         [''System services:'', ''  Running services: 0'',
          ''  Critical services: '' @ join '', '' (take 5 (sv_critical r))]
         @ (if 5 < length (sv_critical r)
            then [''    ... and '' @ str_nat (length (sv_critical r) - 5) @ '' more'']
            else [])"
proof -
  from services_result [OF assms(2)] obtain sv cr cr' where
    d: "discover_services h = (sv, cr)"
    and sv: "sv_services r = sv"
    and count: "sv_running_count r = length sv"
    and crit: "sv_critical r = set_order h cr'"
    and none: "sv = [] \<longrightarrow>
                (\<exists>names. process_iter_names (host_services h) = Inr names
                   \<and> scan_processes names cr = Inr cr')"
    by blast
  from assms(1) d have e: "sv = []" by simp
  with d have "cr = []" using discover_services_none by blast
  with none e obtain names where names: "process_iter_names (host_services h) = Inr names"
    and scan: "scan_processes names [] = Inr cr'" by blast
  from scan_processes_set [OF scan] have found: "set cr' = {n. Some n \<in> set names \<and> is_critical n}"
    by simp
  have c1: "sv_running_count r = 0" "sv_services r = []"
    using e sv count by simp_all
  have c2: "\<exists>names found.
           process_iter_names (host_services h) = Inr names
           \<and> scan_processes names [] = Inr found
           \<and> sv_critical r = set_order h found
           \<and> set found = {n. Some n \<in> set names \<and> is_critical n}"
    using names scan crit found by blast
  have c3: "render_services r =
         [''System services:'', ''  Running services: 0'',
          ''  Critical services: '' @ join '', '' (take 5 (sv_critical r))]
         @ (if 5 < length (sv_critical r)
            then [''    ... and '' @ str_nat (length (sv_critical r) - 5) @ '' more'']
            else [])"
    by (simp add: render_services_def c1 str_nat.simps)
  show ?thesis
    by (intro conjI) (fact c1(1), fact c1(2), fact c2, fact c3)
qed

theorem fallback_running_count_zero_witness:
  "fst (discover_services nginx_process_host) = []
   \<and> snd (get_services_info nginx_process_host)
     = Some \<lparr> sv_running_count = 0, sv_services = [],
              sv_critical = [''nginx-main'', ''nginx-worker''] \<rparr>
   \<and> render_services \<lparr> sv_running_count = 0, sv_services = [],
                        sv_critical = [''nginx-main'', ''nginx-worker''] \<rparr>
     = [''System services:'', ''  Running services: 0'',
        ''  Critical services: nginx-main, nginx-worker'']"
proof -
  define r where "r = \<lparr> sv_running_count = 0, sv_services = [],
              sv_critical = [''nginx-main'', ''nginx-worker''] \<rparr>"
  have a: "fst (discover_services nginx_process_host) = []"
    by (simp add: nginx_discover)
  have p: "snd (get_services_info nginx_process_host) = Some r"
    by (simp add: nginx_probe r_def)
  from fallback_running_count_zero [OF a p]
  have "render_services r =
         [''System services:'', ''  Running services: 0'',
          ''  Critical services: '' @ join '', '' (take 5 (sv_critical r))]
         @ (if 5 < length (sv_critical r)
            then [''    ... and '' @ str_nat (length (sv_critical r) - 5) @ '' more'']
            else [])"
    by blast
  then have "render_services r = [''System services:'', ''  Running services: 0'',
        ''  Critical services: nginx-main, nginx-worker'']"
    by (simp add: r_def)
  with a p show ?thesis by (simp add: r_def)
qed

end
